theory Spec2Isabelle
  imports Complex_Main
begin

section \<open>Python values, exceptions and the collaborators of \<open>lingvo/core/datasource.py\<close>\<close>

text \<open>
  The fields of a configuration are dynamically typed, and the validation code of every
  data source inspects their run-time type (\<open>isinstance\<close>, \<open>len\<close>, iteration,
  truthiness). A field value is therefore a tagged Python value. The code never computes
  with a weight, so a float is carried as the number it denotes.
\<close>

datatype pyval =
    PNone
  | PBool bool
  | PInt int
  | PFloat real
  | PStr string
  | PList "pyval list"
  | PTuple "pyval list"

text \<open>
  An exception is a value. The first five constructors are the exceptions the data sources
  raise themselves (\<open>ValueError\<close> is the Invalid-Configuration error); \<open>Raised x\<close> is
  an exception \<open>x\<close> that came out of the file-pattern function and is passed on unchanged.
\<close>

datatype 'x error =
    ValueError
  | TypeError
  | IndexError
  | AttributeError
  | NotImplementedError
  | Raised 'x

text \<open>
  \<open>len(v)\<close>: defined on strings, lists and tuples; on the rest it raises \<open>TypeError\<close>
  (\<open>None\<close>).
\<close>

fun py_len :: "pyval \<Rightarrow> nat option" where
  "py_len (PStr s) = Some (length s)"
| "py_len (PList xs) = Some (length xs)"
| "py_len (PTuple xs) = Some (length xs)"
| "py_len v = None"

text \<open>
  \<open>for x in v\<close>: the elements of a list or tuple, the one-character strings of a string;
  the rest is not iterable (\<open>None\<close>: \<open>TypeError\<close>).
\<close>

fun py_iter :: "pyval \<Rightarrow> pyval list option" where
  "py_iter (PStr s) = Some (map (\<lambda>c. PStr [c]) s)"
| "py_iter (PList xs) = Some xs"
| "py_iter (PTuple xs) = Some xs"
| "py_iter v = None"

text \<open>Truth value of \<open>v\<close>, as \<open>not v\<close> tests it.\<close>

fun py_truthy :: "pyval \<Rightarrow> bool" where
  "py_truthy PNone = False"
| "py_truthy (PBool b) = b"
| "py_truthy (PInt i) = (i \<noteq> 0)"
| "py_truthy (PFloat r) = (r \<noteq> 0)"
| "py_truthy (PStr s) = (s \<noteq> [])"
| "py_truthy (PList xs) = (xs \<noteq> [])"
| "py_truthy (PTuple xs) = (xs \<noteq> [])"

text \<open>
  \<open>all(isinstance(x, six.string_types) for x in xs)\<close>: \<open>None\<close> when some element is
  not a string, and the strings themselves when all are, for the code after the check.
  \<open>isinstance(v, list)\<close> is a match on \<open>PList\<close>.
\<close>

fun as_strings :: "pyval list \<Rightarrow> string list option" where
  "as_strings [] = Some []"
| "as_strings (PStr s # xs) = map_option ((#) s) (as_strings xs)"
| "as_strings (v # xs) = None"

text \<open>\<open>sep.join(xs)\<close>.\<close>

fun py_join :: "string \<Rightarrow> string list \<Rightarrow> string" where
  "py_join sep [] = []"
| "py_join sep [x] = x"
| "py_join sep (x # y # ys) = x @ sep @ py_join sep (y # ys)"

text \<open>\<open>',' in file_pattern\<close>, tested for each pattern in turn.\<close>

definition has_comma :: "string \<Rightarrow> bool" where
  "has_comma file_pattern = (CHR '','' \<in> set file_pattern)"

subsection \<open>Tensors and batches\<close>

text \<open>
  A tensor is its shape and its entries in row-major order. A batch is a nested structure
  of tensors; \<open>flatten\<close> lists its leaves in order (\<open>tf.nest.flatten\<close>).
\<close>

record tensor =
  shape :: "nat list"
  flat :: "real list"

datatype 'a nest = Leaf 'a | Nest "'a nest list"

type_synonym batch = "tensor nest"

fun flatten :: "'a nest \<Rightarrow> 'a list" where
  "flatten (Leaf a) = [a]"
| "flatten (Nest xs) = concat (map flatten xs)"

text \<open>
  Modelled from the spec: \<open>py_utils.GetShape\<close> is not in the source under verification.
  The spec: the array runtime supports shape introspection, and the leading dimension of a
  batch's arrays is the batch size. \<open>GetShape t\<close> is the list of the dimensions of \<open>t\<close>.
\<close>

definition GetShape :: "tensor \<Rightarrow> nat list" where
  "GetShape t = shape t"

text \<open>
  \<open>tf.expand_dims(v, 0)\<close> of a vector \<open>v\<close> is the matrix with the single row \<open>v\<close>.
\<close>

definition expand_dims_0 :: "real list \<Rightarrow> tensor" where
  "expand_dims_0 v = \<lparr>shape = [1, length v], flat = v\<rparr>"

text \<open>
  \<open>tf.tile(t, multiples)\<close> repeats \<open>t\<close> along dimension \<open>k\<close> \<open>multiples[k]\<close> times.
  \<open>chunks k sz xs\<close> cuts the first \<open>k\<close> pieces of length \<open>sz\<close> from \<open>xs\<close>: the
  slices of a tensor along its leading dimension. TensorFlow requires one multiple per
  dimension; the only call here tiles a matrix with two multiples.
\<close>

fun chunks :: "nat \<Rightarrow> nat \<Rightarrow> 'a list \<Rightarrow> 'a list list" where
  "chunks 0 sz xs = []"
| "chunks (Suc k) sz xs = take sz xs # chunks k sz (drop sz xs)"

fun tile_flat :: "nat list \<Rightarrow> nat list \<Rightarrow> 'a list \<Rightarrow> 'a list" where
  "tile_flat (d # ds) (m # ms) xs =
     concat (replicate m (concat (map (tile_flat ds ms) (chunks d (prod_list ds) xs))))"
| "tile_flat ds ms xs = xs"

definition tile :: "tensor \<Rightarrow> nat list \<Rightarrow> tensor" where
  "tile t multiples =
     \<lparr>shape = map2 (*) (shape t) multiples, flat = tile_flat (shape t) multiples (flat t)\<rparr>"

text \<open>\<open>one_hot i n\<close>: the vector of length \<open>n\<close> that is 1 at \<open>i\<close> and 0 elsewhere.\<close>

definition one_hot :: "nat \<Rightarrow> nat \<Rightarrow> real list" where
  "one_hot i n = map (\<lambda>j. if j = i then 1 else 0) [0..<n]"

text \<open>Row \<open>r\<close> of a matrix.\<close>

definition row :: "tensor \<Rightarrow> nat \<Rightarrow> real list" where
  "row t r = (case shape t of [m, n] \<Rightarrow> take n (drop (r * n) (flat t)) | _ \<Rightarrow> [])"

subsection \<open>The file-pattern function and its call log\<close>

text \<open>
  \<open>data_source_from_file_pattern_fn\<close> is given by the caller. It takes a file pattern
  and, optionally, \<open>input_source_weights\<close>; it may read and change a state of its own
  (\<open>'s\<close>: file cursors and the like), and it returns a batch or raises (\<open>'x\<close>).
  The world the data sources run in is that state together with the list of the calls
  made to the function so far, oldest first.
\<close>

type_synonym ('x, 's) fetch = "string \<Rightarrow> pyval option \<Rightarrow> 's \<Rightarrow> ('x + batch) \<times> 's"

record 's world =
  calls :: "(string \<times> pyval option) list"
  store :: 's

definition call_fetch ::
  "('x, 's) fetch \<Rightarrow> string \<Rightarrow> pyval option \<Rightarrow> 's world \<Rightarrow> ('x error + batch) \<times> 's world" where
  "call_fetch fetch file_pattern input_source_weights w =
     (case fetch file_pattern input_source_weights (store w) of
        (r, s') \<Rightarrow>
          ((case r of Inl x \<Rightarrow> Inl (Raised x) | Inr b \<Rightarrow> Inr b),
           \<lparr>calls = calls w @ [(file_pattern, input_source_weights)], store = s'\<rparr>))"

text \<open>
  A producer is a zero-argument callable returning a batch; the weighted selector takes the
  producers and the weights and returns a batch and the indicator of the selected source.
\<close>

type_synonym ('x, 's) producer = "'s world \<Rightarrow> ('x error + batch) \<times> 's world"

type_synonym ('x, 's) selector =
  "('x, 's) producer list \<Rightarrow> pyval \<Rightarrow> 's world \<Rightarrow> ('x error + batch \<times> real list) \<times> 's world"

text \<open>
  Modelled from the spec: \<open>py_utils.MixByWeight\<close>, the weighted selector, is not in the
  source under verification. The spec's contract: given the producers and the weights it
  selects an index \<open>i\<close>, invokes producer \<open>i\<close> exactly once, invokes no other producer and
  returns that batch with \<open>one_hot(i, n)\<close>; where the selection is undefined it fails with
  an Invalid-Configuration error. The random draw is the parameter \<open>i\<close>: the weights decide
  only how likely each draw is, which this model does not represent. A draw that names no
  producer is the undefined selection.
\<close>

definition MixByWeight :: "nat \<Rightarrow> ('x, 's) selector" where
  "MixByWeight i producers weights w =
     (if i < length producers then
        (case (producers ! i) w of
           (Inl e, w') \<Rightarrow> (Inl e, w')
         | (Inr b, w') \<Rightarrow> (Inr (b, one_hot i (length producers)), w'))
      else (Inl ValueError, w))"

section \<open>Configurations and results\<close>

text \<open>
  A configuration (\<open>hyperparams.Params\<close>) maps the names of its defined fields to their
  values; reading a field that is not defined raises \<open>AttributeError\<close>. The \<open>Params\<close>
  class methods declare the fields of each data source and their defaults.
\<close>

type_synonym Params = "string \<rightharpoonup> pyval"

definition DataSource_Params :: Params where
  "DataSource_Params = Map.empty"

definition SimpleDataSource_Params :: Params where
  "SimpleDataSource_Params = DataSource_Params(''file_pattern'' \<mapsto> PStr [])"

definition ChainingDataSource_Params :: Params where
  "ChainingDataSource_Params = DataSource_Params(''file_patterns'' \<mapsto> PList [])"

definition WithinBatchMixingDataSource_Params :: Params where
  "WithinBatchMixingDataSource_Params =
     DataSource_Params(''file_patterns'' \<mapsto> PList [], ''weights'' \<mapsto> PList [])"

definition CrossBatchMixingDataSource_Params :: Params where
  "CrossBatchMixingDataSource_Params =
     DataSource_Params(''file_patterns'' \<mapsto> PList [], ''weights'' \<mapsto> PList [],
       ''bprop_variable_filters'' \<mapsto> PList [])"

text \<open>
  Modelled from the spec: \<open>py_utils.NestedMap\<close> is not in the source under verification.
  The spec: the result is a mapping with the fields \<open>data\<close>, \<open>source_selected\<close>,
  \<open>selected_bprop\<close> and \<open>bprop_variable_filters\<close>. \<open>data\<close> is always set, the
  other three only by the data sources that assign them (\<open>None\<close>: the field is absent).
\<close>

record nested_map =
  data :: batch
  bprop_variable_filters :: "pyval option"
  selected_bprop :: "real list option"
  source_selected :: "tensor option"

definition NestedMap :: "batch \<Rightarrow> nested_map" where
  "NestedMap d =
     \<lparr>data = d, bprop_variable_filters = None, selected_bprop = None, source_selected = None\<rparr>"

section \<open>The data sources\<close>

definition DataSource_BuildDataSource ::
  "('x, 's) fetch \<Rightarrow> Params \<Rightarrow> 's world \<Rightarrow> ('x error + nested_map) \<times> 's world" where
  "DataSource_BuildDataSource data_source_from_file_pattern_fn p w = (Inl NotImplementedError, w)"

definition SimpleDataSource_BuildDataSource ::
  "('x, 's) fetch \<Rightarrow> Params \<Rightarrow> 's world \<Rightarrow> ('x error + nested_map) \<times> 's world" where
  "SimpleDataSource_BuildDataSource data_source_from_file_pattern_fn p w =
     (case p ''file_pattern'' of
        None \<Rightarrow> (Inl AttributeError, w)
      | Some (PStr file_pattern) \<Rightarrow>
          (case call_fetch data_source_from_file_pattern_fn file_pattern None w of
             (Inl e, w') \<Rightarrow> (Inl e, w')
           | (Inr d, w') \<Rightarrow> (Inr (NestedMap d), w'))
      | Some v \<Rightarrow> (Inl ValueError, w))"

definition ChainingDataSource_BuildDataSource ::
  "('x, 's) fetch \<Rightarrow> Params \<Rightarrow> 's world \<Rightarrow> ('x error + nested_map) \<times> 's world" where
  "ChainingDataSource_BuildDataSource data_source_from_file_pattern_fn p w =
     (case p ''file_patterns'' of
        None \<Rightarrow> (Inl AttributeError, w)
      | Some (PList xs) \<Rightarrow>
          (case as_strings xs of
             None \<Rightarrow> (Inl ValueError, w)
           | Some file_patterns \<Rightarrow>
               if list_ex has_comma file_patterns then (Inl ValueError, w)
               else
                 (case call_fetch data_source_from_file_pattern_fn
                         (py_join '','' file_patterns) None w of
                    (Inl e, w') \<Rightarrow> (Inl e, w')
                  | (Inr d, w') \<Rightarrow>
                      (Inr ((NestedMap d)\<lparr>bprop_variable_filters :=
                              Some (PList (replicate (length file_patterns) (PStr [])))\<rparr>), w')))
      | Some v \<Rightarrow> (Inl ValueError, w))"

definition WithinBatchMixingDataSource_BuildDataSource ::
  "('x, 's) fetch \<Rightarrow> Params \<Rightarrow> 's world \<Rightarrow> ('x error + nested_map) \<times> 's world" where
  "WithinBatchMixingDataSource_BuildDataSource data_source_from_file_pattern_fn p w =
     (case p ''file_patterns'' of
        None \<Rightarrow> (Inl AttributeError, w)
      | Some (PList xs) \<Rightarrow>
          (case p ''weights'' of
             None \<Rightarrow> (Inl AttributeError, w)
           | Some (PList ws) \<Rightarrow>
               if length xs \<noteq> length ws then (Inl ValueError, w)
               else
                 (case as_strings xs of
                    None \<Rightarrow> (Inl ValueError, w)
                  | Some file_patterns \<Rightarrow>
                      if list_ex has_comma file_patterns then (Inl ValueError, w)
                      else
                        (case call_fetch data_source_from_file_pattern_fn
                                (py_join '','' file_patterns) (Some (PList ws)) w of
                           (Inl e, w') \<Rightarrow> (Inl e, w')
                         | (Inr d, w') \<Rightarrow>
                             (Inr ((NestedMap d)\<lparr>bprop_variable_filters :=
                                     Some (PList (replicate (length file_patterns) (PStr [])))\<rparr>),
                              w')))
           | Some v \<Rightarrow> (Inl ValueError, w))
      | Some v \<Rightarrow> (Inl ValueError, w))"

text \<open>
  \<open>_MakeDataSourceFromFilePatternFunc\<close> returns the lambda: building it calls nothing,
  invoking it calls the file-pattern function on its pattern, without weights.
\<close>

definition MakeDataSourceFromFilePatternFunc ::
  "('x, 's) fetch \<Rightarrow> string \<Rightarrow> ('x, 's) producer" where
  "MakeDataSourceFromFilePatternFunc data_source_from_file_pattern_fn file_pattern =
     (\<lambda>w. call_fetch data_source_from_file_pattern_fn file_pattern None w)"

text \<open>
  The selector \<open>py_utils.MixByWeight\<close> is the first argument. The indicator it returns,
  \<open>selected_bprop\<close>, is a vector.
\<close>

definition CrossBatchMixingDataSource_BuildDataSource ::
  "('x, 's) selector \<Rightarrow> ('x, 's) fetch \<Rightarrow> Params \<Rightarrow> 's world \<Rightarrow>
     ('x error + nested_map) \<times> 's world" where
  "CrossBatchMixingDataSource_BuildDataSource mix_by_weight data_source_from_file_pattern_fn p w =
     (case p ''weights'' of
        None \<Rightarrow> (Inl AttributeError, w)
      | Some weights \<Rightarrow>
     (case py_len weights of
        None \<Rightarrow> (Inl TypeError, w)
      | Some n_weights \<Rightarrow>
     (case p ''file_patterns'' of
        None \<Rightarrow> (Inl AttributeError, w)
      | Some fps \<Rightarrow>
     (case py_len fps of
        None \<Rightarrow> (Inl TypeError, w)
      | Some n_file_patterns \<Rightarrow>
     if n_weights \<noteq> n_file_patterns then (Inl ValueError, w)
     else
     (case py_iter fps of
        None \<Rightarrow> (Inl TypeError, w)
      | Some xs \<Rightarrow>
     (case as_strings xs of
        None \<Rightarrow> (Inl ValueError, w)
      | Some file_patterns \<Rightarrow>
     (let inputs = map (MakeDataSourceFromFilePatternFunc data_source_from_file_pattern_fn)
                     file_patterns
      in
     (case p ''bprop_variable_filters'' of
        None \<Rightarrow> (Inl AttributeError, w)
      | Some configured \<Rightarrow>
     (let filters = (if \<not> py_truthy configured
                     then PList (replicate (length inputs) (PStr []))
                     else configured)
      in
     (case mix_by_weight inputs weights w of
        (Inl e, w') \<Rightarrow> (Inl e, w')
      | (Inr (data_source, bprop), w') \<Rightarrow>
     (case flatten data_source of
        [] \<Rightarrow> (Inl IndexError, w')
      | t # ts \<Rightarrow>
     (case GetShape t of
        [] \<Rightarrow> (Inl IndexError, w')
      | batch_size # dims \<Rightarrow>
          (Inr \<lparr>data = data_source,
                bprop_variable_filters = Some filters,
                selected_bprop = Some bprop,
                source_selected = Some (tile (expand_dims_0 bprop) [batch_size, 1])\<rparr>,
           w')))))))))))))"

section \<open>Instances\<close>

text \<open>
  Configurations are mutable objects: the heap holds them, and an address is an index into
  it. A data source instance has its class and the address of \<open>self.params\<close>.
\<close>

datatype cls =
    DataSource
  | SimpleDataSource
  | ChainingDataSource
  | WithinBatchMixingDataSource
  | CrossBatchMixingDataSource


record data_source =
  cls_of :: cls
  params :: nat





text \<open>
  \<open>self.BuildDataSource(fn)\<close>: the method of the instance's class, on \<open>self.params\<close>.
\<close>

definition BuildDataSource ::
  "('x, 's) selector \<Rightarrow> ('x, 's) fetch \<Rightarrow> cls \<Rightarrow> Params \<Rightarrow> 's world \<Rightarrow>
     ('x error + nested_map) \<times> 's world" where
  "BuildDataSource mix_by_weight fn c p w =
     (case c of
        DataSource \<Rightarrow> DataSource_BuildDataSource fn p w
      | SimpleDataSource \<Rightarrow> SimpleDataSource_BuildDataSource fn p w
      | ChainingDataSource \<Rightarrow> ChainingDataSource_BuildDataSource fn p w
      | WithinBatchMixingDataSource \<Rightarrow> WithinBatchMixingDataSource_BuildDataSource fn p w
      | CrossBatchMixingDataSource \<Rightarrow>
          CrossBatchMixingDataSource_BuildDataSource mix_by_weight fn p w)"


section \<open>A file-pattern function and a world to run the data sources in\<close>

text \<open>
  The state of this function is a cursor that every successful call advances. A call with
  the empty pattern raises; any other call returns a batch of two tensors whose leading
  dimension is 2.
\<close>

definition example_fetch :: "(string, nat) fetch" where
  "example_fetch file_pattern input_source_weights cursor =
     (if file_pattern = [] then (Inl ''no file pattern'', cursor)
      else (Inr (Nest [Leaf \<lparr>shape = [2, 3], flat = replicate 6 (real cursor)\<rparr>,
                       Leaf \<lparr>shape = [2], flat = [0, 1]\<rparr>]),
            Suc cursor))"

definition w0 :: "nat world" where
  "w0 = \<lparr>calls = [], store = 0\<rparr>"

section \<open>Basic facts\<close>

lemma call_fetch_snd:
  "snd (call_fetch fn fp ws w) = \<lparr>calls = calls w @ [(fp, ws)], store = snd (fn fp ws (store w))\<rparr>"
  by (simp add: call_fetch_def split: prod.splits)

lemma call_fetch_fst:
  "fst (call_fetch fn fp ws w) = (case fst (fn fp ws (store w)) of Inl x \<Rightarrow> Inl (Raised x) | Inr b \<Rightarrow> Inr b)"
  by (simp add: call_fetch_def split: prod.splits)

lemma as_strings_map_PStr: "as_strings (map PStr ss) = Some ss"
  by (induction ss) simp_all

lemma as_strings_Some: "as_strings xs = Some ss \<Longrightarrow> xs = map PStr ss"
proof (induction xs arbitrary: ss)
  case Nil then show ?case by simp
next
  case (Cons x xs)
  then show ?case by (cases x) auto
qed

lemma as_strings_None: "as_strings xs = None \<longleftrightarrow> (\<exists>x\<in>set xs. \<forall>s. x \<noteq> PStr s)"
proof (induction xs)
  case Nil then show ?case by simp
next
  case (Cons x xs)
  then show ?case by (cases x) auto
qed

lemma py_iter_len: "py_iter v = Some xs \<Longrightarrow> py_len v = Some (length xs)"
  by (cases v) auto

section \<open>SimpleDataSource and WithinBatchMixingDataSource\<close>

text \<open>
  C6. \<open>SimpleDataSource.BuildDataSource\<close> raises the Invalid-Configuration error, calling
  nothing, when \<open>file_pattern\<close> is not a string. When it is the string \<open>s\<close>, the
  call log grows by the single call \<open>(s, no weights)\<close>, the state of the file-pattern
  function is the one that call leaves, and the result is what the call returned, under
  \<open>data\<close>, with no other field set (an exception of the call is passed on).
\<close>

theorem SimpleDataSource_BuildDataSource_contract:
  "(p ''file_pattern'' = Some v \<and> (\<forall>s. v \<noteq> PStr s) \<longrightarrow>
      SimpleDataSource_BuildDataSource fn p w = (Inl ValueError, w)) \<and>
   (p ''file_pattern'' = Some (PStr s) \<longrightarrow>
      snd (SimpleDataSource_BuildDataSource fn p w) =
        \<lparr>calls = calls w @ [(s, None)], store = snd (fn s None (store w))\<rparr> \<and>
      fst (SimpleDataSource_BuildDataSource fn p w) =
        (case fst (fn s None (store w)) of
           Inl x \<Rightarrow> Inl (Raised x)
         | Inr b \<Rightarrow> Inr \<lparr>data = b, bprop_variable_filters = None,
                         selected_bprop = None, source_selected = None\<rparr>))"
proof (intro conjI impI)
  assume "p ''file_pattern'' = Some v \<and> (\<forall>s. v \<noteq> PStr s)"
  then show "SimpleDataSource_BuildDataSource fn p w = (Inl ValueError, w)"
    by (cases v) (simp_all add: SimpleDataSource_BuildDataSource_def)
next
  assume p: "p ''file_pattern'' = Some (PStr s)"
  obtain r w' where c: "call_fetch fn s None w = (r, w')"
    by (cases "call_fetch fn s None w")
  have w': "w' = \<lparr>calls = calls w @ [(s, None)], store = snd (fn s None (store w))\<rparr>"
    using call_fetch_snd [of fn s None w] c by simp
  have r: "r = (case fst (fn s None (store w)) of Inl x \<Rightarrow> Inl (Raised x) | Inr b \<Rightarrow> Inr b)"
    using call_fetch_fst [of fn s None w] c by simp
  show "snd (SimpleDataSource_BuildDataSource fn p w) =
        \<lparr>calls = calls w @ [(s, None)], store = snd (fn s None (store w))\<rparr>"
    using p c w' by (simp add: SimpleDataSource_BuildDataSource_def split: sum.splits)
  show "fst (SimpleDataSource_BuildDataSource fn p w) =
        (case fst (fn s None (store w)) of
           Inl x \<Rightarrow> Inl (Raised x)
         | Inr b \<Rightarrow> Inr \<lparr>data = b, bprop_variable_filters = None,
                         selected_bprop = None, source_selected = None\<rparr>)"
    using p c r by (simp add: SimpleDataSource_BuildDataSource_def NestedMap_def split: sum.splits)
qed

theorem SimpleDataSource_BuildDataSource_contract_witness:
  "SimpleDataSource_BuildDataSource example_fetch
     (SimpleDataSource_Params(''file_pattern'' \<mapsto> PList [PStr ''a'', PStr ''b''])) w0
     = (Inl ValueError, w0) \<and>
   snd (SimpleDataSource_BuildDataSource example_fetch
     (SimpleDataSource_Params(''file_pattern'' \<mapsto> PStr ''a,b'')) w0)
     = \<lparr>calls = [(''a,b'', None)], store = 1\<rparr> \<and>
   fst (SimpleDataSource_BuildDataSource example_fetch
     (SimpleDataSource_Params(''file_pattern'' \<mapsto> PStr ''a,b'')) w0)
     = Inr \<lparr>data = Nest [Leaf \<lparr>shape = [2, 3], flat = [0, 0, 0, 0, 0, 0]\<rparr>,
                         Leaf \<lparr>shape = [2], flat = [0, 1]\<rparr>],
            bprop_variable_filters = None, selected_bprop = None, source_selected = None\<rparr>"
  using SimpleDataSource_BuildDataSource_contract
          [of "SimpleDataSource_Params(''file_pattern'' \<mapsto> PList [PStr ''a'', PStr ''b''])"
              "PList [PStr ''a'', PStr ''b'']" example_fetch w0 "''a,b''"]
        SimpleDataSource_BuildDataSource_contract
          [of "SimpleDataSource_Params(''file_pattern'' \<mapsto> PStr ''a,b'')"
              "PStr ''a,b''" example_fetch w0 "''a,b''"]
  by (simp add: SimpleDataSource_Params_def example_fetch_def w0_def numeral_eq_Suc)

text \<open>
  C7. \<open>WithinBatchMixingDataSource.BuildDataSource\<close>: when \<open>file_patterns\<close> and
  \<open>weights\<close> are lists of different lengths, the call raises the Invalid-Configuration
  error and the file-pattern function has not been called.
\<close>

theorem WithinBatchMixingDataSource_length_mismatch:
  "p ''file_patterns'' = Some (PList xs) \<Longrightarrow> p ''weights'' = Some (PList ws) \<Longrightarrow>
   length xs \<noteq> length ws \<Longrightarrow>
   WithinBatchMixingDataSource_BuildDataSource fn p w = (Inl ValueError, w) \<and>
   calls (snd (WithinBatchMixingDataSource_BuildDataSource fn p w)) = calls w"
  by (simp add: WithinBatchMixingDataSource_BuildDataSource_def)

theorem WithinBatchMixingDataSource_length_mismatch_witness:
  "WithinBatchMixingDataSource_BuildDataSource example_fetch
     (WithinBatchMixingDataSource_Params
        (''file_patterns'' \<mapsto> PList [PStr ''a'', PStr ''b'', PStr ''c''],
         ''weights'' \<mapsto> PList [PInt 1, PInt 2])) w0 = (Inl ValueError, w0)"
  using WithinBatchMixingDataSource_length_mismatch
          [of "WithinBatchMixingDataSource_Params
                 (''file_patterns'' \<mapsto> PList [PStr ''a'', PStr ''b'', PStr ''c''],
                  ''weights'' \<mapsto> PList [PInt 1, PInt 2])"
              "[PStr ''a'', PStr ''b'', PStr ''c'']" "[PInt 1, PInt 2]" example_fetch w0]
  by simp

section \<open>ChainingDataSource\<close>

lemma list_ex_has_comma: "list_ex has_comma ss \<longleftrightarrow> (\<exists>s\<in>set ss. CHR '','' \<in> set s)"
  by (simp add: list_ex_iff has_comma_def)

lemma Chaining_rejects:
  assumes "p ''file_patterns'' = Some v"
    and "(\<forall>xs. v \<noteq> PList xs) \<or> (\<exists>xs. v = PList xs \<and> (as_strings xs = None \<or> (\<exists>ss. as_strings xs = Some ss \<and> list_ex has_comma ss)))"
  shows "ChainingDataSource_BuildDataSource fn p w = (Inl ValueError, w)"
  using assms by (cases v) (auto simp add: ChainingDataSource_BuildDataSource_def)

lemma Chaining_accepts:
  assumes "p ''file_patterns'' = Some (PList (map PStr ss))" and "\<not> list_ex has_comma ss"
  shows "ChainingDataSource_BuildDataSource fn p w =
           (case call_fetch fn (py_join '','' ss) None w of
              (Inl e, w') \<Rightarrow> (Inl e, w')
            | (Inr d, w') \<Rightarrow>
                (Inr \<lparr>data = d, bprop_variable_filters = Some (PList (replicate (length ss) (PStr []))),
                      selected_bprop = None, source_selected = None\<rparr>, w'))"
  using assms
  by (simp add: ChainingDataSource_BuildDataSource_def as_strings_map_PStr NestedMap_def
           split: prod.splits sum.splits)

text \<open>
  C5. \<open>ChainingDataSource.BuildDataSource\<close>: for a list of \<open>N\<close> comma-free strings the
  file-pattern function is called exactly once, on the strings joined by commas in their
  order and without weights, and the result carries \<open>N\<close> empty strings as
  \<open>bprop_variable_filters\<close>. The call raises the Invalid-Configuration error, calling
  nothing, when \<open>file_patterns\<close> is not a list, when an element is not a string, and when
  an element contains a comma.
\<close>

theorem ChainingDataSource_BuildDataSource_contract:
  "(p ''file_patterns'' = Some (PList (map PStr ss)) \<and> (\<forall>s\<in>set ss. CHR '','' \<notin> set s) \<longrightarrow>
      snd (ChainingDataSource_BuildDataSource fn p w) =
        \<lparr>calls = calls w @ [(py_join '','' ss, None)],
         store = snd (fn (py_join '','' ss) None (store w))\<rparr> \<and>
      fst (ChainingDataSource_BuildDataSource fn p w) =
        (case fst (fn (py_join '','' ss) None (store w)) of
           Inl x \<Rightarrow> Inl (Raised x)
         | Inr b \<Rightarrow> Inr \<lparr>data = b,
                         bprop_variable_filters = Some (PList (replicate (length ss) (PStr []))),
                         selected_bprop = None, source_selected = None\<rparr>)) \<and>
   (p ''file_patterns'' = Some v \<and> (\<forall>xs. v \<noteq> PList xs) \<longrightarrow>
      ChainingDataSource_BuildDataSource fn p w = (Inl ValueError, w)) \<and>
   (p ''file_patterns'' = Some (PList xs) \<and> (\<exists>x\<in>set xs. \<forall>s. x \<noteq> PStr s) \<longrightarrow>
      ChainingDataSource_BuildDataSource fn p w = (Inl ValueError, w)) \<and>
   (p ''file_patterns'' = Some (PList (map PStr ss)) \<and> (\<exists>s\<in>set ss. CHR '','' \<in> set s) \<longrightarrow>
      ChainingDataSource_BuildDataSource fn p w = (Inl ValueError, w))"
proof (intro conjI impI)
  assume a: "p ''file_patterns'' = Some (PList (map PStr ss)) \<and> (\<forall>s\<in>set ss. CHR '','' \<notin> set s)"
  then have nc: "\<not> list_ex has_comma ss" by (simp add: list_ex_has_comma)
  obtain r w' where c: "call_fetch fn (py_join '','' ss) None w = (r, w')"
    by (cases "call_fetch fn (py_join '','' ss) None w")
  have w': "w' = \<lparr>calls = calls w @ [(py_join '','' ss, None)],
                  store = snd (fn (py_join '','' ss) None (store w))\<rparr>"
    using call_fetch_snd [of fn "py_join '','' ss" None w] c by simp
  have r: "r = (case fst (fn (py_join '','' ss) None (store w)) of
                  Inl x \<Rightarrow> Inl (Raised x) | Inr b \<Rightarrow> Inr b)"
    using call_fetch_fst [of fn "py_join '','' ss" None w] c by simp
  have eq: "ChainingDataSource_BuildDataSource fn p w =
           (case r of Inl e \<Rightarrow> (Inl e, w')
            | Inr d \<Rightarrow>
                (Inr \<lparr>data = d, bprop_variable_filters = Some (PList (replicate (length ss) (PStr []))),
                      selected_bprop = None, source_selected = None\<rparr>, w'))"
    using Chaining_accepts [of p ss fn w] a nc c by (simp split: sum.splits)
  show "snd (ChainingDataSource_BuildDataSource fn p w) =
        \<lparr>calls = calls w @ [(py_join '','' ss, None)],
         store = snd (fn (py_join '','' ss) None (store w))\<rparr>"
    using eq w' by (simp split: sum.splits)
  show "fst (ChainingDataSource_BuildDataSource fn p w) =
        (case fst (fn (py_join '','' ss) None (store w)) of
           Inl x \<Rightarrow> Inl (Raised x)
         | Inr b \<Rightarrow> Inr \<lparr>data = b,
                         bprop_variable_filters = Some (PList (replicate (length ss) (PStr []))),
                         selected_bprop = None, source_selected = None\<rparr>)"
    using eq r by (simp split: sum.splits)
next
  assume "p ''file_patterns'' = Some v \<and> (\<forall>xs. v \<noteq> PList xs)"
  then show "ChainingDataSource_BuildDataSource fn p w = (Inl ValueError, w)"
    using Chaining_rejects [of p v fn w] by simp
next
  assume "p ''file_patterns'' = Some (PList xs) \<and> (\<exists>x\<in>set xs. \<forall>s. x \<noteq> PStr s)"
  then show "ChainingDataSource_BuildDataSource fn p w = (Inl ValueError, w)"
    using Chaining_rejects [of p "PList xs" fn w] as_strings_None [of xs] by simp
next
  assume "p ''file_patterns'' = Some (PList (map PStr ss)) \<and> (\<exists>s\<in>set ss. CHR '','' \<in> set s)"
  then show "ChainingDataSource_BuildDataSource fn p w = (Inl ValueError, w)"
    using Chaining_rejects [of p "PList (map PStr ss)" fn w] as_strings_map_PStr [of ss]
      list_ex_has_comma [of ss] by simp
qed

theorem ChainingDataSource_BuildDataSource_contract_witness:
  "ChainingDataSource_BuildDataSource example_fetch
     (ChainingDataSource_Params(''file_patterns'' \<mapsto> PList [PStr ''a'', PStr ''b'', PStr ''c''])) w0
     = (Inr \<lparr>data = Nest [Leaf \<lparr>shape = [2, 3], flat = [0, 0, 0, 0, 0, 0]\<rparr>,
                          Leaf \<lparr>shape = [2], flat = [0, 1]\<rparr>],
             bprop_variable_filters = Some (PList [PStr [], PStr [], PStr []]),
             selected_bprop = None, source_selected = None\<rparr>,
        \<lparr>calls = [(''a,b,c'', None)], store = 1\<rparr>) \<and>
   ChainingDataSource_BuildDataSource example_fetch
     (ChainingDataSource_Params(''file_patterns'' \<mapsto> PStr ''a'')) w0 = (Inl ValueError, w0) \<and>
   ChainingDataSource_BuildDataSource example_fetch
     (ChainingDataSource_Params(''file_patterns'' \<mapsto> PList [PStr ''a'', PInt 1])) w0
     = (Inl ValueError, w0) \<and>
   ChainingDataSource_BuildDataSource example_fetch
     (ChainingDataSource_Params(''file_patterns'' \<mapsto> PList [PStr ''a'', PStr ''b,c''])) w0
     = (Inl ValueError, w0)"
proof -
  let ?ok = "ChainingDataSource_Params(''file_patterns'' \<mapsto> PList (map PStr [''a'', ''b'', ''c'']))"
  let ?nolist = "ChainingDataSource_Params(''file_patterns'' \<mapsto> PStr ''a'')"
  let ?nostr = "ChainingDataSource_Params(''file_patterns'' \<mapsto> PList [PStr ''a'', PInt 1])"
  let ?comma = "ChainingDataSource_Params(''file_patterns'' \<mapsto> PList (map PStr [''a'', ''b,c'']))"
  have 1: "ChainingDataSource_BuildDataSource example_fetch ?ok w0
     = (Inr \<lparr>data = Nest [Leaf \<lparr>shape = [2, 3], flat = [0, 0, 0, 0, 0, 0]\<rparr>,
                          Leaf \<lparr>shape = [2], flat = [0, 1]\<rparr>],
             bprop_variable_filters = Some (PList [PStr [], PStr [], PStr []]),
             selected_bprop = None, source_selected = None\<rparr>,
        \<lparr>calls = [(''a,b,c'', None)], store = 1\<rparr>)"
    using ChainingDataSource_BuildDataSource_contract
            [of ?ok "[''a'', ''b'', ''c'']" example_fetch w0]
    by (simp add: prod_eq_iff example_fetch_def w0_def numeral_eq_Suc)
  have 2: "ChainingDataSource_BuildDataSource example_fetch ?nolist w0 = (Inl ValueError, w0)"
    using ChainingDataSource_BuildDataSource_contract
            [of ?nolist _ example_fetch w0 "PStr ''a''"]
    by simp
  have 3: "ChainingDataSource_BuildDataSource example_fetch ?nostr w0 = (Inl ValueError, w0)"
    using ChainingDataSource_BuildDataSource_contract
            [of ?nostr _ example_fetch w0 _ "[PStr ''a'', PInt 1]"]
    by simp
  have 4: "ChainingDataSource_BuildDataSource example_fetch ?comma w0 = (Inl ValueError, w0)"
    using ChainingDataSource_BuildDataSource_contract
            [of ?comma "[''a'', ''b,c'']" example_fetch w0]
    by simp
  from 1 2 3 4 show ?thesis by simp
qed

section \<open>Tensors, the selector and the cross-batch data source\<close>

lemma concat_chunks_one: "concat (chunks (length xs) (Suc 0) xs) = xs"
  by (induction xs) simp_all

lemma tile_flat_scalars: "map (tile_flat [] ms) xss = xss"
  by (induction xss) simp_all

lemma tile_expand_dims_0:
  "tile (expand_dims_0 v) [batch_size, 1] =
     \<lparr>shape = [batch_size, length v], flat = concat (replicate batch_size v)\<rparr>"
  by (simp add: tile_def expand_dims_0_def tile_flat_scalars concat_chunks_one)

lemma take_drop_concat_replicate:
  "r < k \<Longrightarrow> take (length v) (drop (r * length v) (concat (replicate k v))) = v"
proof (induction r arbitrary: k)
  case 0
  then obtain k' where "k = Suc k'" by (cases k) auto
  then show ?case by simp
next
  case (Suc r)
  then obtain k' where k: "k = Suc k'" and "r < k'" by (cases k) auto
  with Suc.IH [of k'] show ?case by simp
qed

lemma row_tile_expand_dims_0:
  "r < batch_size \<Longrightarrow> row (tile (expand_dims_0 v) [batch_size, 1]) r = v"
  unfolding tile_expand_dims_0 by (simp add: row_def take_drop_concat_replicate)

lemma length_one_hot: "length (one_hot i n) = n"
  by (simp add: one_hot_def)

lemma MixByWeight_inputs:
  "MixByWeight i (map (MakeDataSourceFromFilePatternFunc fn) ss) weights w =
     (if i < length ss then
        (case call_fetch fn (ss ! i) None w of
           (Inl e, w') \<Rightarrow> (Inl e, w')
         | (Inr b, w') \<Rightarrow> (Inr (b, one_hot i (length ss)), w'))
      else (Inl ValueError, w))"
  by (simp add: MixByWeight_def MakeDataSourceFromFilePatternFunc_def
           split: prod.splits sum.splits)

lemma MixByWeight_snd:
  "i < length producers \<Longrightarrow> snd (MixByWeight i producers weights w) = snd ((producers ! i) w)"
  by (simp add: MixByWeight_def split: prod.splits sum.splits)

lemma CrossBatch_valid:
  assumes "p ''weights'' = Some weights"
    and "py_len weights = Some (length ss)"
    and "p ''file_patterns'' = Some fps"
    and "py_iter fps = Some (map PStr ss)"
    and "p ''bprop_variable_filters'' = Some configured"
  shows "CrossBatchMixingDataSource_BuildDataSource mix fn p w =
     (case mix (map (MakeDataSourceFromFilePatternFunc fn) ss) weights w of
        (Inl e, w') \<Rightarrow> (Inl e, w')
      | (Inr (d, bprop), w') \<Rightarrow>
          (case flatten d of
             [] \<Rightarrow> (Inl IndexError, w')
           | t # ts \<Rightarrow>
               (case GetShape t of
                  [] \<Rightarrow> (Inl IndexError, w')
                | batch_size # dims \<Rightarrow>
                    (Inr \<lparr>data = d,
                          bprop_variable_filters =
                            Some (if py_truthy configured then configured
                                  else PList (replicate (length ss) (PStr []))),
                          selected_bprop = Some bprop,
                          source_selected = Some (tile (expand_dims_0 bprop) [batch_size, 1])\<rparr>,
                     w'))))"
proof -
  have "py_len fps = Some (length ss)"
    using py_iter_len [OF assms(4)] by simp
  then show ?thesis
    using assms
    by (simp add: CrossBatchMixingDataSource_BuildDataSource_def as_strings_map_PStr
             split: prod.splits sum.splits list.splits)
qed


text \<open>
  A call is rejected before the selector is reached, or the configuration is a valid one.
\<close>

lemma CrossBatch_cases:
  "(\<exists>e. CrossBatchMixingDataSource_BuildDataSource mix fn p w = (Inl e, w) \<and>
        (e = AttributeError \<or> e = TypeError \<or> e = ValueError)) \<or>
   (\<exists>weights fps ss configured.
      p ''weights'' = Some weights \<and> py_len weights = Some (length ss) \<and>
      p ''file_patterns'' = Some fps \<and> py_iter fps = Some (map PStr ss) \<and>
      p ''bprop_variable_filters'' = Some configured)"
  by (auto simp add: CrossBatchMixingDataSource_BuildDataSource_def
        split: option.splits sum.splits dest!: as_strings_Some dest: py_iter_len)

lemma CrossBatch_MixByWeight_valid:
  assumes "p ''weights'' = Some weights"
    and "py_len weights = Some (length ss)"
    and "p ''file_patterns'' = Some fps"
    and "py_iter fps = Some (map PStr ss)"
    and "p ''bprop_variable_filters'' = Some configured"
  shows "CrossBatchMixingDataSource_BuildDataSource (MixByWeight i) fn p w =
     (if i < length ss then
        (case call_fetch fn (ss ! i) None w of
           (Inl e, w') \<Rightarrow> (Inl e, w')
         | (Inr d, w') \<Rightarrow>
             (case flatten d of
                [] \<Rightarrow> (Inl IndexError, w')
              | t # ts \<Rightarrow>
                  (case shape t of
                     [] \<Rightarrow> (Inl IndexError, w')
                   | batch_size # dims \<Rightarrow>
                       (Inr \<lparr>data = d,
                             bprop_variable_filters =
                               Some (if py_truthy configured then configured
                                     else PList (replicate (length ss) (PStr []))),
                             selected_bprop = Some (one_hot i (length ss)),
                             source_selected =
                               Some (tile (expand_dims_0 (one_hot i (length ss))) [batch_size, 1])\<rparr>,
                        w'))))
      else (Inl ValueError, w))"
  unfolding CrossBatch_valid [OF assms] MixByWeight_inputs
  by (simp add: GetShape_def split: prod.splits sum.splits list.splits)

lemma CrossBatch_MixByWeight_snd:
  assumes "p ''weights'' = Some weights"
    and "py_len weights = Some (length ss)"
    and "p ''file_patterns'' = Some fps"
    and "py_iter fps = Some (map PStr ss)"
    and "p ''bprop_variable_filters'' = Some configured"
    and "i < length ss"
  shows "snd (CrossBatchMixingDataSource_BuildDataSource (MixByWeight i) fn p w) =
           snd (call_fetch fn (ss ! i) None w)"
  unfolding CrossBatch_MixByWeight_valid [OF assms(1-5)] using assms(6)
  by (simp split: prod.splits sum.splits list.splits)

lemma CrossBatch_MixByWeight_cases:
  assumes "CrossBatchMixingDataSource_BuildDataSource (MixByWeight i) fn p w = (r, w')"
  shows "(\<exists>e. r = Inl e \<and> e \<noteq> IndexError \<and> (\<forall>x. e \<noteq> Raised x) \<and> w' = w) \<or>
         (\<exists>weights fps ss configured.
            p ''weights'' = Some weights \<and> py_len weights = Some (length ss) \<and>
            p ''file_patterns'' = Some fps \<and> py_iter fps = Some (map PStr ss) \<and>
            p ''bprop_variable_filters'' = Some configured \<and> i < length ss \<and>
            w' = snd (call_fetch fn (ss ! i) None w))"
proof -
  consider (rejected) e where
      "CrossBatchMixingDataSource_BuildDataSource (MixByWeight i) fn p w = (Inl e, w)"
      "e = AttributeError \<or> e = TypeError \<or> e = ValueError"
    | (valid) weights fps ss configured where
      "p ''weights'' = Some weights" "py_len weights = Some (length ss)"
      "p ''file_patterns'' = Some fps" "py_iter fps = Some (map PStr ss)"
      "p ''bprop_variable_filters'' = Some configured"
    using CrossBatch_cases [of "MixByWeight i" fn p w] by blast
  then show ?thesis
  proof cases
    case rejected
    with assms show ?thesis by auto
  next
    case valid
    show ?thesis
    proof (cases "i < length ss")
      case True
      have "w' = snd (call_fetch fn (ss ! i) None w)"
        using CrossBatch_MixByWeight_snd [OF valid True, of fn w] assms by simp
      with valid True show ?thesis by blast
    next
      case False
      then have "CrossBatchMixingDataSource_BuildDataSource (MixByWeight i) fn p w = (Inl ValueError, w)"
        using CrossBatch_MixByWeight_valid [OF valid, of i fn w] by simp
      with assms show ?thesis by auto
    qed
  qed
qed

lemma CrossBatch_MixByWeight_success:
  assumes "CrossBatchMixingDataSource_BuildDataSource (MixByWeight i) fn p w = (Inr ret, w')"
  shows "\<exists>weights fps ss configured d t ts batch_size dims.
            p ''weights'' = Some weights \<and> py_len weights = Some (length ss) \<and>
            p ''file_patterns'' = Some fps \<and> py_iter fps = Some (map PStr ss) \<and>
            p ''bprop_variable_filters'' = Some configured \<and> i < length ss \<and>
            call_fetch fn (ss ! i) None w = (Inr d, w') \<and>
            flatten d = t # ts \<and> shape t = batch_size # dims \<and>
            ret = \<lparr>data = d,
                   bprop_variable_filters =
                     Some (if py_truthy configured then configured
                           else PList (replicate (length ss) (PStr []))),
                   selected_bprop = Some (one_hot i (length ss)),
                   source_selected =
                     Some (tile (expand_dims_0 (one_hot i (length ss))) [batch_size, 1])\<rparr>"
proof -
  from CrossBatch_MixByWeight_cases [OF assms]
  obtain weights fps ss configured where v:
      "p ''weights'' = Some weights" "py_len weights = Some (length ss)"
      "p ''file_patterns'' = Some fps" "py_iter fps = Some (map PStr ss)"
      "p ''bprop_variable_filters'' = Some configured" and i: "i < length ss"
    by auto
  show ?thesis
    using assms v i unfolding CrossBatch_MixByWeight_valid [OF v]
    by (auto split: prod.splits sum.splits list.splits)
qed

section \<open>CrossBatchMixingDataSource: selection\<close>

text \<open>
  C1. \<open>CrossBatchMixingDataSource.BuildDataSource\<close>, with the selector of the spec drawing
  index \<open>i\<close>. Each pattern is wrapped in a producer that, when invoked and only then,
  calls the file-pattern function on that pattern; the selector leaves the world as the
  invocation of producer \<open>i\<close> alone leaves it. Every call of \<open>BuildDataSource\<close> either
  fails with the world unchanged (nothing fetched), or the configuration lists patterns,
  \<open>i\<close> names one of them, and the call log has grown by exactly the one call on pattern
  \<open>i\<close>; a call that returns a result has made exactly one call. And the fetch does
  happen: whenever the configuration defines its three fields, \<open>file_patterns\<close> iterates
  to strings, \<open>weights\<close> has as many elements and \<open>i\<close> names a pattern, the call leaves
  the log longer by the one call on pattern \<open>i\<close>, without weights, and the state of the
  file-pattern function is the one that call leaves.
\<close>

theorem CrossBatch_fetches_selected_source_only:
  fixes fn :: "('x, 's) fetch"
  shows
  "(\<forall>j<length ss. \<forall>u.
      (map (MakeDataSourceFromFilePatternFunc fn) ss ! j) u = call_fetch fn (ss ! j) None u) \<and>
   (\<forall>(producers :: ('x, 's) producer list) weights. i < length producers \<longrightarrow>
      snd (MixByWeight i producers weights w) = snd ((producers ! i) w)) \<and>
   (CrossBatchMixingDataSource_BuildDataSource (MixByWeight i) fn p w = (r, w') \<longrightarrow>
      (\<exists>e. r = Inl e \<and> w' = w) \<or>
      (\<exists>fps file_patterns.
         p ''file_patterns'' = Some fps \<and> py_iter fps = Some (map PStr file_patterns) \<and>
         i < length file_patterns \<and>
         w' = snd ((map (MakeDataSourceFromFilePatternFunc fn) file_patterns ! i) w) \<and>
         calls w' = calls w @ [(file_patterns ! i, None)] \<and>
         store w' = snd (fn (file_patterns ! i) None (store w)))) \<and>
   (CrossBatchMixingDataSource_BuildDataSource (MixByWeight i) fn p w = (r, w') \<and>
    (\<exists>ret. r = Inr ret) \<longrightarrow> length (calls w') = Suc (length (calls w))) \<and>
   (p ''weights'' = Some weights \<and> py_len weights = Some (length ss) \<and>
    p ''file_patterns'' = Some fps \<and> py_iter fps = Some (map PStr ss) \<and>
    p ''bprop_variable_filters'' = Some configured \<and> i < length ss \<longrightarrow>
      snd (CrossBatchMixingDataSource_BuildDataSource (MixByWeight i) fn p w) =
        \<lparr>calls = calls w @ [(ss ! i, None)], store = snd (fn (ss ! i) None (store w))\<rparr> \<and>
      length (calls (snd (CrossBatchMixingDataSource_BuildDataSource (MixByWeight i) fn p w))) =
        Suc (length (calls w)))"
proof -
  have lazy: "\<forall>j<length ss. \<forall>u.
      (map (MakeDataSourceFromFilePatternFunc fn) ss ! j) u = call_fetch fn (ss ! j) None u"
    by (simp add: MakeDataSourceFromFilePatternFunc_def)
  have only: "\<forall>(producers :: ('x, 's) producer list) weights. i < length producers \<longrightarrow>
      snd (MixByWeight i producers weights w) = snd ((producers ! i) w)"
    by (simp add: MixByWeight_snd)
  have every: "CrossBatchMixingDataSource_BuildDataSource (MixByWeight i) fn p w = (r, w') \<longrightarrow>
      (\<exists>e. r = Inl e \<and> w' = w) \<or>
      (\<exists>fps file_patterns.
         p ''file_patterns'' = Some fps \<and> py_iter fps = Some (map PStr file_patterns) \<and>
         i < length file_patterns \<and>
         w' = snd ((map (MakeDataSourceFromFilePatternFunc fn) file_patterns ! i) w) \<and>
         calls w' = calls w @ [(file_patterns ! i, None)] \<and>
         store w' = snd (fn (file_patterns ! i) None (store w)))"
  proof
    assume run: "CrossBatchMixingDataSource_BuildDataSource (MixByWeight i) fn p w = (r, w')"
    from CrossBatch_MixByWeight_cases [OF run]
    consider (rejected) e where "r = Inl e" "w' = w"
      | (selected) fps file_patterns where
          "p ''file_patterns'' = Some fps" "py_iter fps = Some (map PStr file_patterns)"
          "i < length file_patterns" "w' = snd (call_fetch fn (file_patterns ! i) None w)"
      by blast
    then show "(\<exists>e. r = Inl e \<and> w' = w) \<or>
      (\<exists>fps file_patterns.
         p ''file_patterns'' = Some fps \<and> py_iter fps = Some (map PStr file_patterns) \<and>
         i < length file_patterns \<and>
         w' = snd ((map (MakeDataSourceFromFilePatternFunc fn) file_patterns ! i) w) \<and>
         calls w' = calls w @ [(file_patterns ! i, None)] \<and>
         store w' = snd (fn (file_patterns ! i) None (store w)))"
    proof cases
      case rejected
      then show ?thesis by blast
    next
      case selected
      have "w' = snd ((map (MakeDataSourceFromFilePatternFunc fn) file_patterns ! i) w)"
        using selected(3,4) by (simp add: MakeDataSourceFromFilePatternFunc_def)
      moreover have "calls w' = calls w @ [(file_patterns ! i, None)]"
        and "store w' = snd (fn (file_patterns ! i) None (store w))"
        using selected(4) by (simp_all add: call_fetch_snd)
      ultimately show ?thesis using selected(1-3) by blast
    qed
  qed
  have once: "CrossBatchMixingDataSource_BuildDataSource (MixByWeight i) fn p w = (r, w') \<and>
        (\<exists>ret. r = Inr ret) \<longrightarrow> length (calls w') = Suc (length (calls w))"
  proof
    assume "CrossBatchMixingDataSource_BuildDataSource (MixByWeight i) fn p w = (r, w') \<and>
        (\<exists>ret. r = Inr ret)"
    then obtain ret where
      run: "CrossBatchMixingDataSource_BuildDataSource (MixByWeight i) fn p w = (Inr ret, w')"
      by blast
    from CrossBatch_MixByWeight_success [OF run]
    obtain ss d where "call_fetch fn (ss ! i) None w = (Inr d, w')" by blast
    then have "w' = snd (call_fetch fn (ss ! i) None w)" by simp
    then show "length (calls w') = Suc (length (calls w))" by (simp add: call_fetch_snd)
  qed
  have fetched: "p ''weights'' = Some weights \<and> py_len weights = Some (length ss) \<and>
    p ''file_patterns'' = Some fps \<and> py_iter fps = Some (map PStr ss) \<and>
    p ''bprop_variable_filters'' = Some configured \<and> i < length ss \<longrightarrow>
      snd (CrossBatchMixingDataSource_BuildDataSource (MixByWeight i) fn p w) =
        \<lparr>calls = calls w @ [(ss ! i, None)], store = snd (fn (ss ! i) None (store w))\<rparr> \<and>
      length (calls (snd (CrossBatchMixingDataSource_BuildDataSource (MixByWeight i) fn p w))) =
        Suc (length (calls w))"
  proof
    assume v: "p ''weights'' = Some weights \<and> py_len weights = Some (length ss) \<and>
      p ''file_patterns'' = Some fps \<and> py_iter fps = Some (map PStr ss) \<and>
      p ''bprop_variable_filters'' = Some configured \<and> i < length ss"
    have "snd (CrossBatchMixingDataSource_BuildDataSource (MixByWeight i) fn p w) =
            snd (call_fetch fn (ss ! i) None w)"
      using CrossBatch_MixByWeight_snd [of p weights ss fps configured i fn w] v by blast
    then have world: "snd (CrossBatchMixingDataSource_BuildDataSource (MixByWeight i) fn p w) =
        \<lparr>calls = calls w @ [(ss ! i, None)], store = snd (fn (ss ! i) None (store w))\<rparr>"
      by (simp add: call_fetch_snd)
    then have "length (calls (snd (CrossBatchMixingDataSource_BuildDataSource
                 (MixByWeight i) fn p w))) = Suc (length (calls w))"
      by simp
    with world show "snd (CrossBatchMixingDataSource_BuildDataSource (MixByWeight i) fn p w) =
        \<lparr>calls = calls w @ [(ss ! i, None)], store = snd (fn (ss ! i) None (store w))\<rparr> \<and>
      length (calls (snd (CrossBatchMixingDataSource_BuildDataSource (MixByWeight i) fn p w))) =
        Suc (length (calls w))"
      by (intro conjI)
  qed
  from lazy only every once fetched show ?thesis by (intro conjI)
qed

lemma example_cross_batch_run:
  "CrossBatchMixingDataSource_BuildDataSource (MixByWeight 1) example_fetch
     (CrossBatchMixingDataSource_Params
        (''file_patterns'' \<mapsto> PList [PStr ''a.rec'', PStr ''b.rec''],
         ''weights'' \<mapsto> PList [PInt 1, PInt 3],
         ''bprop_variable_filters'' \<mapsto> PList [PStr ''lang_a'', PStr ''lang_b''])) w0 =
   (Inr \<lparr>data = Nest [Leaf \<lparr>shape = [2, 3], flat = [0, 0, 0, 0, 0, 0]\<rparr>,
                      Leaf \<lparr>shape = [2], flat = [0, 1]\<rparr>],
         bprop_variable_filters = Some (PList [PStr ''lang_a'', PStr ''lang_b'']),
         selected_bprop = Some [0, 1],
         source_selected = Some \<lparr>shape = [2, 2], flat = [0, 1, 0, 1]\<rparr>\<rparr>,
    \<lparr>calls = [(''b.rec'', None)], store = 1\<rparr>)"
  by (simp add: CrossBatchMixingDataSource_BuildDataSource_def CrossBatchMixingDataSource_Params_def
        DataSource_Params_def MixByWeight_def MakeDataSourceFromFilePatternFunc_def call_fetch_def
        example_fetch_def w0_def GetShape_def tile_def expand_dims_0_def one_hot_def
        numeral_eq_Suc upt_rec)

theorem CrossBatch_fetches_selected_source_only_witness:
  "snd (CrossBatchMixingDataSource_BuildDataSource (MixByWeight 1) example_fetch
          (CrossBatchMixingDataSource_Params
             (''file_patterns'' \<mapsto> PList [PStr ''a.rec'', PStr ''b.rec''],
              ''weights'' \<mapsto> PList [PInt 1, PInt 3],
              ''bprop_variable_filters'' \<mapsto> PList [PStr ''lang_a'', PStr ''lang_b''])) w0)
     = \<lparr>calls = [(''b.rec'', None)], store = 1\<rparr> \<and>
   length (calls (snd (CrossBatchMixingDataSource_BuildDataSource (MixByWeight 1) example_fetch
          (CrossBatchMixingDataSource_Params
             (''file_patterns'' \<mapsto> PList [PStr ''a.rec'', PStr ''b.rec''],
              ''weights'' \<mapsto> PList [PInt 1, PInt 3],
              ''bprop_variable_filters'' \<mapsto> PList [PStr ''lang_a'', PStr ''lang_b''])) w0)))
     = Suc (length (calls w0)) \<and>
   (\<exists>fps file_patterns.
      (CrossBatchMixingDataSource_Params
        (''file_patterns'' \<mapsto> PList [PStr ''a.rec'', PStr ''b.rec''],
         ''weights'' \<mapsto> PList [PInt 1, PInt 3],
         ''bprop_variable_filters'' \<mapsto> PList [PStr ''lang_a'', PStr ''lang_b''])) ''file_patterns''
        = Some fps \<and>
      py_iter fps = Some (map PStr file_patterns) \<and> 1 < length file_patterns \<and>
      calls \<lparr>calls = [(''b.rec'', None)], store = 1::nat\<rparr> = calls w0 @ [(file_patterns ! 1, None)])"
proof -
  let ?p = "CrossBatchMixingDataSource_Params
        (''file_patterns'' \<mapsto> PList [PStr ''a.rec'', PStr ''b.rec''],
         ''weights'' \<mapsto> PList [PInt 1, PInt 3],
         ''bprop_variable_filters'' \<mapsto> PList [PStr ''lang_a'', PStr ''lang_b''])"
  let ?r = "Inr \<lparr>data = Nest [Leaf \<lparr>shape = [2, 3], flat = [0, 0, 0, 0, 0, 0]\<rparr>,
                      Leaf \<lparr>shape = [2], flat = [0, 1]\<rparr>],
         bprop_variable_filters = Some (PList [PStr ''lang_a'', PStr ''lang_b'']),
         selected_bprop = Some [0, 1],
         source_selected = Some \<lparr>shape = [2, 2], flat = [0, 1, 0, 1]\<rparr>\<rparr>
         :: string error + nested_map"
  let ?w' = "\<lparr>calls = [(''b.rec'', None)], store = 1::nat\<rparr>"
  let ?ss = "[''a.rec'', ''b.rec'']"
  note claim = CrossBatch_fetches_selected_source_only
          [where i = 1 and fn = example_fetch and w = w0 and w' = ?w' and p = ?p and r = ?r
             and ss = ?ss and weights = "PList [PInt 1, PInt 3]"
             and fps = "PList (map PStr ?ss)"
             and configured = "PList [PStr ''lang_a'', PStr ''lang_b'']"]
  have valid: "?p ''weights'' = Some (PList [PInt 1, PInt 3]) \<and>
      py_len (PList [PInt 1, PInt 3]) = Some (length ?ss) \<and>
      ?p ''file_patterns'' = Some (PList (map PStr ?ss)) \<and>
      py_iter (PList (map PStr ?ss)) = Some (map PStr ?ss) \<and>
      ?p ''bprop_variable_filters'' = Some (PList [PStr ''lang_a'', PStr ''lang_b'']) \<and>
      1 < length ?ss"
    by simp
  have world: "snd (CrossBatchMixingDataSource_BuildDataSource (MixByWeight 1) example_fetch ?p w0) =
        \<lparr>calls = calls w0 @ [(?ss ! 1, None)],
         store = snd (example_fetch (?ss ! 1) None (store w0))\<rparr>"
    and grown: "length (calls (snd (CrossBatchMixingDataSource_BuildDataSource (MixByWeight 1)
                  example_fetch ?p w0))) = Suc (length (calls w0))"
    using claim valid by blast+
  have 1: "snd (CrossBatchMixingDataSource_BuildDataSource (MixByWeight 1) example_fetch ?p w0)
             = ?w'"
    using world by (simp add: example_fetch_def w0_def)
  have run: "CrossBatchMixingDataSource_BuildDataSource (MixByWeight 1) example_fetch ?p w0
               = (?r, ?w')"
    by (rule example_cross_batch_run)
  have "(\<exists>e. ?r = Inl e \<and> ?w' = w0) \<or>
      (\<exists>fps file_patterns.
         ?p ''file_patterns'' = Some fps \<and> py_iter fps = Some (map PStr file_patterns) \<and>
         1 < length file_patterns \<and>
         ?w' = snd ((map (MakeDataSourceFromFilePatternFunc example_fetch) file_patterns ! 1) w0) \<and>
         calls ?w' = calls w0 @ [(file_patterns ! 1, None)] \<and>
         store ?w' = snd (example_fetch (file_patterns ! 1) None (store w0)))"
    using claim run by blast
  then have 3: "\<exists>fps file_patterns.
         ?p ''file_patterns'' = Some fps \<and> py_iter fps = Some (map PStr file_patterns) \<and>
         1 < length file_patterns \<and>
         calls ?w' = calls w0 @ [(file_patterns ! 1, None)]"
    by blast
  from 1 grown 3 show ?thesis by (intro conjI)
qed

lemma length_concat_replicate: "length (concat (replicate k v)) = k * length v"
  by (induction k) simp_all

text \<open>
  C2. Every successful call of \<open>CrossBatchMixingDataSource.BuildDataSource\<close> (selector of
  the spec) returns a \<open>source_selected\<close> of shape \<open>[batch_size, num_sources]\<close>, where
  \<open>batch_size\<close> is the leading dimension of the first leaf of the selected batch and
  \<open>num_sources\<close> is \<open>len(file_patterns)\<close>, and each of its rows is \<open>selected_bprop\<close>.
\<close>

theorem CrossBatch_source_selected_rows:
  assumes "CrossBatchMixingDataSource_BuildDataSource (MixByWeight i) fn p w = (Inr ret, w')"
  shows "\<exists>fps file_patterns num_sources t ts batch_size dims bprop selected.
           p ''file_patterns'' = Some fps \<and> py_len fps = Some num_sources \<and>
           py_iter fps = Some (map PStr file_patterns) \<and>
           fst (fn (file_patterns ! i) None (store w)) = Inr (data ret) \<and>
           flatten (data ret) = t # ts \<and> shape t = batch_size # dims \<and>
           selected_bprop ret = Some bprop \<and> length bprop = num_sources \<and>
           source_selected ret = Some selected \<and>
           shape selected = [batch_size, num_sources] \<and>
           length (flat selected) = batch_size * num_sources \<and>
           (\<forall>r<batch_size. row selected r = bprop)"
proof -
  from CrossBatch_MixByWeight_success [OF assms]
  obtain weights fps ss configured d t ts batch_size dims where
    v: "p ''file_patterns'' = Some fps" "py_iter fps = Some (map PStr ss)" "i < length ss"
      "call_fetch fn (ss ! i) None w = (Inr d, w')"
      "flatten d = t # ts" "shape t = batch_size # dims"
    and ret: "ret = \<lparr>data = d,
                   bprop_variable_filters =
                     Some (if py_truthy configured then configured
                           else PList (replicate (length ss) (PStr []))),
                   selected_bprop = Some (one_hot i (length ss)),
                   source_selected =
                     Some (tile (expand_dims_0 (one_hot i (length ss))) [batch_size, 1])\<rparr>"
    by blast
  let ?b = "one_hot i (length ss)"
  let ?s = "tile (expand_dims_0 ?b) [batch_size, 1]"
  have len: "py_len fps = Some (length ss)"
    using py_iter_len [OF v(2)] by simp
  have fetched: "fst (fn (ss ! i) None (store w)) = Inr d"
    using v(4) call_fetch_fst [of fn "ss ! i" None w] by (simp split: sum.splits)
  have shp: "shape ?s = [batch_size, length ss]"
    and flt: "length (flat ?s) = batch_size * length ss"
    unfolding tile_expand_dims_0 by (simp_all add: length_one_hot length_concat_replicate)
  have rows: "\<forall>r<batch_size. row ?s r = ?b"
    by (intro allI impI row_tile_expand_dims_0)
  show ?thesis
    using v(1,2) len fetched v(5,6) shp flt rows
    unfolding ret
    by (intro exI [of _ fps] exI [of _ ss] exI [of _ "length ss"] exI [of _ t] exI [of _ ts]
          exI [of _ batch_size] exI [of _ dims] exI [of _ ?b] exI [of _ ?s])
       (simp add: length_one_hot)
qed

theorem CrossBatch_source_selected_rows_witness:
  "\<exists>fps file_patterns t ts dims.
     (CrossBatchMixingDataSource_Params
        (''file_patterns'' \<mapsto> PList [PStr ''a.rec'', PStr ''b.rec''],
         ''weights'' \<mapsto> PList [PInt 1, PInt 3],
         ''bprop_variable_filters'' \<mapsto> PList [PStr ''lang_a'', PStr ''lang_b''])) ''file_patterns''
       = Some fps \<and>
     py_len fps = Some 2 \<and>
     py_iter fps = Some (map PStr file_patterns) \<and>
     flatten (Nest [Leaf \<lparr>shape = [2, 3], flat = [0, 0, 0, 0, 0, 0]\<rparr>,
                    Leaf \<lparr>shape = [2], flat = [0, 1]\<rparr>]) = t # ts \<and>
     shape t = 2 # dims \<and>
     shape \<lparr>shape = [2, 2], flat = [0, 1, 0, 1]\<rparr> = [2, 2] \<and>
     length (flat \<lparr>shape = [2, 2], flat = [0, 1, 0, 1]\<rparr>) = 2 * 2 \<and>
     (\<forall>r<2. row \<lparr>shape = [2, 2], flat = [0, 1, 0, 1]\<rparr> r = [0, 1])"
proof -
  let ?p = "CrossBatchMixingDataSource_Params
        (''file_patterns'' \<mapsto> PList [PStr ''a.rec'', PStr ''b.rec''],
         ''weights'' \<mapsto> PList [PInt 1, PInt 3],
         ''bprop_variable_filters'' \<mapsto> PList [PStr ''lang_a'', PStr ''lang_b''])"
  let ?d = "Nest [Leaf \<lparr>shape = [2, 3], flat = [0, 0, 0, 0, 0, 0]\<rparr>,
                  Leaf \<lparr>shape = [2], flat = [0, 1]\<rparr>]"
  let ?ret = "\<lparr>data = ?d,
         bprop_variable_filters = Some (PList [PStr ''lang_a'', PStr ''lang_b'']),
         selected_bprop = Some [0, 1],
         source_selected = Some \<lparr>shape = [2, 2], flat = [0, 1, 0, 1]\<rparr>\<rparr>"
  from CrossBatch_source_selected_rows [OF example_cross_batch_run]
  obtain fps file_patterns num_sources t ts batch_size dims bprop selected where
    f: "?p ''file_patterns'' = Some fps" "py_len fps = Some num_sources"
       "py_iter fps = Some (map PStr file_patterns)"
       "flatten (data ?ret) = t # ts"
       "shape t = batch_size # dims"
       "selected_bprop ?ret = Some bprop" "length bprop = num_sources"
       "source_selected ?ret = Some selected"
       "shape selected = [batch_size, num_sources]"
       "length (flat selected) = batch_size * num_sources"
       "\<forall>r<batch_size. row selected r = bprop"
    by blast
  have b: "bprop = [0, 1]" and s: "selected = \<lparr>shape = [2, 2], flat = [0, 1, 0, 1]\<rparr>"
    using f(6,8) by simp_all
  have n: "num_sources = 2" using f(7) b by simp
  have t: "t = \<lparr>shape = [2, 3], flat = [0, 0, 0, 0, 0, 0]\<rparr>" using f(4) by simp
  have bs: "batch_size = 2" using f(5) t by simp
  have d: "flatten ?d = t # ts" using f(4) by simp
  show ?thesis
    using f(1,2,3) d f(5,9,10,11) unfolding b s n bs
    by (intro exI [of _ fps] exI [of _ file_patterns] exI [of _ t] exI [of _ ts]
          exI [of _ dims] conjI)
qed

text \<open>
  C3. Two patterns, two weights and one \<open>bprop_variable_filter\<close>: the call raises nothing.
  It fetches the selected source and returns the one configured filter. The length of
  \<open>bprop_variable_filters\<close> is never compared with the number of patterns.
\<close>

theorem CrossBatch_accepts_filters_of_other_length:
  "CrossBatchMixingDataSource_BuildDataSource (MixByWeight 0) example_fetch
     (CrossBatchMixingDataSource_Params
        (''file_patterns'' \<mapsto> PList [PStr ''a.rec'', PStr ''b.rec''],
         ''weights'' \<mapsto> PList [PInt 1, PInt 1],
         ''bprop_variable_filters'' \<mapsto> PList [PStr ''lang_a''])) w0 =
   (Inr \<lparr>data = Nest [Leaf \<lparr>shape = [2, 3], flat = [0, 0, 0, 0, 0, 0]\<rparr>,
                      Leaf \<lparr>shape = [2], flat = [0, 1]\<rparr>],
         bprop_variable_filters = Some (PList [PStr ''lang_a'']),
         selected_bprop = Some [1, 0],
         source_selected = Some \<lparr>shape = [2, 2], flat = [1, 0, 1, 0]\<rparr>\<rparr>,
    \<lparr>calls = [(''a.rec'', None)], store = 1\<rparr>)"
  by (simp add: CrossBatchMixingDataSource_BuildDataSource_def CrossBatchMixingDataSource_Params_def
        DataSource_Params_def MixByWeight_def MakeDataSourceFromFilePatternFunc_def call_fetch_def
        example_fetch_def w0_def GetShape_def tile_def expand_dims_0_def one_hot_def
        numeral_eq_Suc upt_rec)

lemma call_fetch_no_ValueError: "fst (call_fetch fn fp ws w) \<noteq> Inl ValueError"
  by (simp add: call_fetch_fst split: sum.splits)

lemma Simple_ValueError_eager:
  "fst (SimpleDataSource_BuildDataSource fn p w) = Inl ValueError \<Longrightarrow>
   snd (SimpleDataSource_BuildDataSource fn p w) = w"
proof (cases "\<exists>s. p ''file_pattern'' = Some (PStr s)")
  case True
  then obtain s where s: "p ''file_pattern'' = Some (PStr s)" ..
  assume "fst (SimpleDataSource_BuildDataSource fn p w) = Inl ValueError"
  then have False
    using s call_fetch_no_ValueError [of fn s None w]
    by (simp add: SimpleDataSource_BuildDataSource_def split: prod.splits sum.splits)
  then show ?thesis ..
next
  case False
  then show ?thesis
    by (cases "p ''file_pattern''"; cases "the (p ''file_pattern'')")
       (simp_all add: SimpleDataSource_BuildDataSource_def)
qed

lemma Chaining_ValueError_eager:
  "fst (ChainingDataSource_BuildDataSource fn p w) = Inl ValueError \<Longrightarrow>
   snd (ChainingDataSource_BuildDataSource fn p w) = w"
proof (cases "\<exists>ss. p ''file_patterns'' = Some (PList (map PStr ss)) \<and> \<not> list_ex has_comma ss")
  case True
  then obtain ss where s: "p ''file_patterns'' = Some (PList (map PStr ss))" "\<not> list_ex has_comma ss"
    by blast
  assume "fst (ChainingDataSource_BuildDataSource fn p w) = Inl ValueError"
  then have False
    using call_fetch_no_ValueError [of fn "py_join '','' ss" None w]
      Chaining_accepts [of p ss fn w] s
    by (simp split: prod.splits sum.splits)
  then show ?thesis ..
next
  case False
  have "ChainingDataSource_BuildDataSource fn p w = (Inl ValueError, w) \<or>
        ChainingDataSource_BuildDataSource fn p w = (Inl AttributeError, w)"
    using False
    by (auto simp add: ChainingDataSource_BuildDataSource_def
          split: option.splits pyval.splits dest!: as_strings_Some)
  then show ?thesis by auto
qed

section \<open>Errors before any fetch\<close>

lemma Within_rejects:
  assumes "p ''file_patterns'' = Some v" and "p ''weights'' = Some u"
    and "(\<forall>xs. v \<noteq> PList xs) \<or> (\<forall>ws. u \<noteq> PList ws) \<or>
         (\<exists>xs ws. v = PList xs \<and> u = PList ws \<and>
            (length xs \<noteq> length ws \<or> as_strings xs = None \<or>
             (\<exists>ss. as_strings xs = Some ss \<and> list_ex has_comma ss)))"
  shows "WithinBatchMixingDataSource_BuildDataSource fn p w = (Inl ValueError, w)"
  using assms
  by (cases v; cases u) (auto simp add: WithinBatchMixingDataSource_BuildDataSource_def)

lemma Within_accepts:
  assumes "p ''file_patterns'' = Some (PList (map PStr ss))" and "\<not> list_ex has_comma ss"
    and "p ''weights'' = Some (PList ws)" and "length ws = length ss"
  shows "WithinBatchMixingDataSource_BuildDataSource fn p w =
           (case call_fetch fn (py_join '','' ss) (Some (PList ws)) w of
              (Inl e, w') \<Rightarrow> (Inl e, w')
            | (Inr d, w') \<Rightarrow>
                (Inr \<lparr>data = d, bprop_variable_filters = Some (PList (replicate (length ss) (PStr []))),
                      selected_bprop = None, source_selected = None\<rparr>, w'))"
  using assms
  by (simp add: WithinBatchMixingDataSource_BuildDataSource_def as_strings_map_PStr NestedMap_def
           split: prod.splits sum.splits)

lemma Within_ValueError_eager:
  "fst (WithinBatchMixingDataSource_BuildDataSource fn p w) = Inl ValueError \<Longrightarrow>
   snd (WithinBatchMixingDataSource_BuildDataSource fn p w) = w"
proof (cases "\<exists>ss ws. p ''file_patterns'' = Some (PList (map PStr ss)) \<and> \<not> list_ex has_comma ss \<and>
                p ''weights'' = Some (PList ws) \<and> length ws = length ss")
  case True
  then obtain ss ws where s: "p ''file_patterns'' = Some (PList (map PStr ss))"
    "\<not> list_ex has_comma ss" "p ''weights'' = Some (PList ws)" "length ws = length ss"
    by blast
  assume "fst (WithinBatchMixingDataSource_BuildDataSource fn p w) = Inl ValueError"
  then have False
    using call_fetch_no_ValueError [of fn "py_join '','' ss" "Some (PList ws)" w]
      Within_accepts [of p ss ws fn w] s
    by (simp split: prod.splits sum.splits)
  then show ?thesis ..
next
  case False
  have "WithinBatchMixingDataSource_BuildDataSource fn p w = (Inl ValueError, w) \<or>
        WithinBatchMixingDataSource_BuildDataSource fn p w = (Inl AttributeError, w)"
    using False
    by (auto simp add: WithinBatchMixingDataSource_BuildDataSource_def
          split: option.splits pyval.splits dest!: as_strings_Some)
  then show ?thesis by auto
qed

lemma CrossBatch_ValueError_eager:
  assumes "fst (CrossBatchMixingDataSource_BuildDataSource (MixByWeight i) fn p w) = Inl ValueError"
  shows "snd (CrossBatchMixingDataSource_BuildDataSource (MixByWeight i) fn p w) = w"
proof -
  obtain r w' where run:
    "CrossBatchMixingDataSource_BuildDataSource (MixByWeight i) fn p w = (r, w')"
    by (cases "CrossBatchMixingDataSource_BuildDataSource (MixByWeight i) fn p w")
  with assms have r: "r = Inl ValueError" by simp
  from CrossBatch_MixByWeight_cases [OF run]
  show ?thesis
  proof (elim disjE exE conjE)
    fix e assume "w' = w"
    with run show ?thesis by simp
  next
    fix weights fps ss configured
    assume v: "p ''weights'' = Some weights" "py_len weights = Some (length ss)"
      "p ''file_patterns'' = Some fps" "py_iter fps = Some (map PStr ss)"
      "p ''bprop_variable_filters'' = Some configured" and i: "i < length ss"
    have False
      using run r i call_fetch_no_ValueError [of fn "ss ! i" None w]
      unfolding CrossBatch_MixByWeight_valid [OF v]
      by (simp split: prod.splits sum.splits list.splits)
    then show ?thesis ..
  qed
qed

text \<open>
  C4. For every class of data source: when \<open>BuildDataSource\<close> raises the
  Invalid-Configuration error (\<open>ValueError\<close>), the world is the one it started in, so the
  file-pattern function has not been called. A producer never raises that error.
\<close>

theorem Invalid_Configuration_precedes_fetch:
  "(fst (BuildDataSource (MixByWeight i) fn c p w) = Inl ValueError \<longrightarrow>
      snd (BuildDataSource (MixByWeight i) fn c p w) = w \<and>
      calls (snd (BuildDataSource (MixByWeight i) fn c p w)) = calls w) \<and>
   fst (MakeDataSourceFromFilePatternFunc fn file_pattern u) \<noteq> Inl ValueError"
proof -
  have "snd (BuildDataSource (MixByWeight i) fn c p w) = w"
    if "fst (BuildDataSource (MixByWeight i) fn c p w) = Inl ValueError"
    using that
    by (cases c)
       (simp_all add: BuildDataSource_def DataSource_BuildDataSource_def Simple_ValueError_eager
          Chaining_ValueError_eager Within_ValueError_eager CrossBatch_ValueError_eager)
  moreover have "fst (MakeDataSourceFromFilePatternFunc fn file_pattern u) \<noteq> Inl ValueError"
    by (simp add: MakeDataSourceFromFilePatternFunc_def call_fetch_no_ValueError)
  ultimately show ?thesis by simp
qed

theorem Invalid_Configuration_precedes_fetch_witness:
  "fst (BuildDataSource (MixByWeight 0) example_fetch CrossBatchMixingDataSource
          (CrossBatchMixingDataSource_Params
             (''file_patterns'' \<mapsto> PList [PStr ''a.rec'', PInt 7],
              ''weights'' \<mapsto> PList [PInt 1, PInt 1])) w0) = Inl ValueError \<and>
   snd (BuildDataSource (MixByWeight 0) example_fetch CrossBatchMixingDataSource
          (CrossBatchMixingDataSource_Params
             (''file_patterns'' \<mapsto> PList [PStr ''a.rec'', PInt 7],
              ''weights'' \<mapsto> PList [PInt 1, PInt 1])) w0) = w0 \<and>
   fst (BuildDataSource (MixByWeight 0) example_fetch ChainingDataSource
          (ChainingDataSource_Params(''file_patterns'' \<mapsto> PList [PStr ''a,b'']))
          w0) = Inl ValueError \<and>
   calls (snd (BuildDataSource (MixByWeight 0) example_fetch ChainingDataSource
          (ChainingDataSource_Params(''file_patterns'' \<mapsto> PList [PStr ''a,b'']))
          w0)) = []"
proof -
  let ?p = "CrossBatchMixingDataSource_Params
             (''file_patterns'' \<mapsto> PList [PStr ''a.rec'', PInt 7],
              ''weights'' \<mapsto> PList [PInt 1, PInt 1])"
  let ?q = "ChainingDataSource_Params(''file_patterns'' \<mapsto> PList [PStr ''a,b''])"
  have 1: "fst (BuildDataSource (MixByWeight 0) example_fetch CrossBatchMixingDataSource ?p w0)
             = (Inl ValueError :: string error + nested_map)"
    by (simp add: BuildDataSource_def CrossBatchMixingDataSource_BuildDataSource_def)
  have 2: "fst (BuildDataSource (MixByWeight 0) example_fetch ChainingDataSource ?q w0)
             = (Inl ValueError :: string error + nested_map)"
    by (simp add: BuildDataSource_def ChainingDataSource_BuildDataSource_def has_comma_def)
  have 3: "calls w0 = []" by (simp add: w0_def)
  from 1 2 3
    Invalid_Configuration_precedes_fetch
      [where i = 0 and fn = example_fetch and c = CrossBatchMixingDataSource and p = ?p and w = w0]
    Invalid_Configuration_precedes_fetch
      [where i = 0 and fn = example_fetch and c = ChainingDataSource and p = ?q and w = w0]
  show ?thesis by simp
qed

section \<open>Commas and weights\<close>

text \<open>
  C9. \<open>CrossBatchMixingDataSource.BuildDataSource\<close> does not look for commas. With a list
  of string patterns, as many weights, and a comma in pattern \<open>j\<close>, the call with draw
  \<open>i\<close> fetches pattern \<open>i\<close> and fails only if that fetch raises or the batch has no
  first dimension; producer \<open>j\<close> calls the file-pattern function on pattern \<open>j\<close> as it is,
  comma included. \<open>ChainingDataSource\<close> and \<open>WithinBatchMixingDataSource\<close> reject the
  same patterns.
\<close>

theorem CrossBatch_no_comma_validation:
  assumes "p ''weights'' = Some weights"
    and "py_len weights = Some (length ss)"
    and "p ''file_patterns'' = Some (PList (map PStr ss))"
    and "p ''bprop_variable_filters'' = Some configured"
    and "i < length ss"
    and "j < length ss"
    and "CHR '','' \<in> set (ss ! j)"
  shows "snd (CrossBatchMixingDataSource_BuildDataSource (MixByWeight i) fn p w) =
           \<lparr>calls = calls w @ [(ss ! i, None)], store = snd (fn (ss ! i) None (store w))\<rparr> \<and>
         fst (CrossBatchMixingDataSource_BuildDataSource (MixByWeight i) fn p w) =
           (case fst (fn (ss ! i) None (store w)) of
              Inl x \<Rightarrow> Inl (Raised x)
            | Inr d \<Rightarrow>
                (case flatten d of
                   [] \<Rightarrow> Inl IndexError
                 | t # ts \<Rightarrow>
                     (case shape t of
                        [] \<Rightarrow> Inl IndexError
                      | batch_size # dims \<Rightarrow>
                          Inr \<lparr>data = d,
                               bprop_variable_filters =
                                 Some (if py_truthy configured then configured
                                       else PList (replicate (length ss) (PStr []))),
                               selected_bprop = Some (one_hot i (length ss)),
                               source_selected =
                                 Some (tile (expand_dims_0 (one_hot i (length ss)))
                                         [batch_size, 1])\<rparr>))) \<and>
         (map (MakeDataSourceFromFilePatternFunc fn) ss ! j) u = call_fetch fn (ss ! j) None u \<and>
         (q ''file_patterns'' = Some (PList (map PStr ss)) \<longrightarrow>
            ChainingDataSource_BuildDataSource fn q w = (Inl ValueError, w)) \<and>
         (q ''file_patterns'' = Some (PList (map PStr ss)) \<and> q ''weights'' = Some v \<longrightarrow>
            WithinBatchMixingDataSource_BuildDataSource fn q w = (Inl ValueError, w))"
proof -
  have it: "py_iter (PList (map PStr ss)) = Some (map PStr ss)" by simp
  note valid = CrossBatch_MixByWeight_valid [OF assms(1,2,3) it assms(4), of i fn w]
  obtain r w' where c: "call_fetch fn (ss ! i) None w = (r, w')"
    by (cases "call_fetch fn (ss ! i) None w")
  have w': "w' = \<lparr>calls = calls w @ [(ss ! i, None)], store = snd (fn (ss ! i) None (store w))\<rparr>"
    using call_fetch_snd [of fn "ss ! i" None w] c by simp
  have r: "r = (case fst (fn (ss ! i) None (store w)) of
                  Inl x \<Rightarrow> Inl (Raised x) | Inr b \<Rightarrow> Inr b)"
    using call_fetch_fst [of fn "ss ! i" None w] c by simp
  have 1: "snd (CrossBatchMixingDataSource_BuildDataSource (MixByWeight i) fn p w) =
           \<lparr>calls = calls w @ [(ss ! i, None)], store = snd (fn (ss ! i) None (store w))\<rparr>"
    unfolding valid using assms(5) c w' by (simp split: sum.splits list.splits)
  have 2: "fst (CrossBatchMixingDataSource_BuildDataSource (MixByWeight i) fn p w) =
           (case fst (fn (ss ! i) None (store w)) of
              Inl x \<Rightarrow> Inl (Raised x)
            | Inr d \<Rightarrow>
                (case flatten d of
                   [] \<Rightarrow> Inl IndexError
                 | t # ts \<Rightarrow>
                     (case shape t of
                        [] \<Rightarrow> Inl IndexError
                      | batch_size # dims \<Rightarrow>
                          Inr \<lparr>data = d,
                               bprop_variable_filters =
                                 Some (if py_truthy configured then configured
                                       else PList (replicate (length ss) (PStr []))),
                               selected_bprop = Some (one_hot i (length ss)),
                               source_selected =
                                 Some (tile (expand_dims_0 (one_hot i (length ss)))
                                         [batch_size, 1])\<rparr>)))"
    unfolding valid using assms(5) c r by (simp split: sum.splits list.splits)
  have 3: "(map (MakeDataSourceFromFilePatternFunc fn) ss ! j) u = call_fetch fn (ss ! j) None u"
    using assms(6) by (simp add: MakeDataSourceFromFilePatternFunc_def)
  have comma: "list_ex has_comma ss"
    using assms(6,7) by (auto simp add: list_ex_has_comma)
  have 4: "q ''file_patterns'' = Some (PList (map PStr ss)) \<longrightarrow>
            ChainingDataSource_BuildDataSource fn q w = (Inl ValueError, w)"
    using Chaining_rejects [of q "PList (map PStr ss)" fn w] comma
    by (simp add: as_strings_map_PStr)
  have 5: "q ''file_patterns'' = Some (PList (map PStr ss)) \<and> q ''weights'' = Some v \<longrightarrow>
            WithinBatchMixingDataSource_BuildDataSource fn q w = (Inl ValueError, w)"
  proof
    assume a: "q ''file_patterns'' = Some (PList (map PStr ss)) \<and> q ''weights'' = Some v"
    show "WithinBatchMixingDataSource_BuildDataSource fn q w = (Inl ValueError, w)"
    proof (rule Within_rejects [of q "PList (map PStr ss)" v])
      show "q ''file_patterns'' = Some (PList (map PStr ss))" using a by simp
      show "q ''weights'' = Some v" using a by simp
      show "(\<forall>xs. PList (map PStr ss) \<noteq> PList xs) \<or> (\<forall>ws. v \<noteq> PList ws) \<or>
         (\<exists>xs ws. PList (map PStr ss) = PList xs \<and> v = PList ws \<and>
            (length xs \<noteq> length ws \<or> as_strings xs = None \<or>
             (\<exists>ss. as_strings xs = Some ss \<and> list_ex has_comma ss)))"
        using comma by (cases "\<exists>ws. v = PList ws") (auto simp add: as_strings_map_PStr)
    qed
  qed
  from 1 2 3 4 5 show ?thesis by (intro conjI)
qed

theorem CrossBatch_no_comma_validation_witness:
  "snd (CrossBatchMixingDataSource_BuildDataSource (MixByWeight 1) example_fetch
          (CrossBatchMixingDataSource_Params
             (''file_patterns'' \<mapsto> PList [PStr ''a.rec'', PStr ''b,c.rec''],
              ''weights'' \<mapsto> PList [PInt 1, PInt 3])) w0)
     = \<lparr>calls = [(''b,c.rec'', None)], store = 1\<rparr> \<and>
   (\<exists>ret. fst (CrossBatchMixingDataSource_BuildDataSource (MixByWeight 1) example_fetch
          (CrossBatchMixingDataSource_Params
             (''file_patterns'' \<mapsto> PList [PStr ''a.rec'', PStr ''b,c.rec''],
              ''weights'' \<mapsto> PList [PInt 1, PInt 3])) w0) = Inr ret) \<and>
   ChainingDataSource_BuildDataSource example_fetch
     (ChainingDataSource_Params
        (''file_patterns'' \<mapsto> PList [PStr ''a.rec'', PStr ''b,c.rec''])) w0
     = (Inl ValueError, w0) \<and>
   WithinBatchMixingDataSource_BuildDataSource example_fetch
     (WithinBatchMixingDataSource_Params
        (''file_patterns'' \<mapsto> PList [PStr ''a.rec'', PStr ''b,c.rec''],
         ''weights'' \<mapsto> PList [PInt 1, PInt 3])) w0
     = (Inl ValueError, w0)"
proof -
  let ?p = "CrossBatchMixingDataSource_Params
             (''file_patterns'' \<mapsto> PList [PStr ''a.rec'', PStr ''b,c.rec''],
              ''weights'' \<mapsto> PList [PInt 1, PInt 3])"
  let ?c = "ChainingDataSource_Params
        (''file_patterns'' \<mapsto> PList [PStr ''a.rec'', PStr ''b,c.rec''])"
  let ?m = "WithinBatchMixingDataSource_Params
        (''file_patterns'' \<mapsto> PList [PStr ''a.rec'', PStr ''b,c.rec''],
         ''weights'' \<mapsto> PList [PInt 1, PInt 3])"
  let ?ss = "[''a.rec'', ''b,c.rec'']"
  have h: "?p ''weights'' = Some (PList [PInt 1, PInt 3])"
    "py_len (PList [PInt 1, PInt 3]) = Some (length ?ss)"
    "?p ''file_patterns'' = Some (PList (map PStr ?ss))"
    "?p ''bprop_variable_filters'' = Some (PList [])"
    "1 < length ?ss" "1 < length ?ss" "CHR '','' \<in> set (?ss ! 1)"
    by (simp_all add: CrossBatchMixingDataSource_Params_def)
  note claim = CrossBatch_no_comma_validation
    [OF h, where fn = example_fetch and w = w0 and u = w0 and q = ?c and v = "PList [PInt 1, PInt 3]"]
  note claim' = CrossBatch_no_comma_validation
    [OF h, where fn = example_fetch and w = w0 and u = w0 and q = ?m and v = "PList [PInt 1, PInt 3]"]
  have "snd (CrossBatchMixingDataSource_BuildDataSource (MixByWeight 1) example_fetch ?p w0)
     = \<lparr>calls = calls w0 @ [(?ss ! 1, None)],
        store = snd (example_fetch (?ss ! 1) None (store w0))\<rparr>"
    using claim by (rule conjunct1)
  then have 1: "snd (CrossBatchMixingDataSource_BuildDataSource (MixByWeight 1) example_fetch ?p w0)
     = \<lparr>calls = [(''b,c.rec'', None)], store = 1\<rparr>"
    by (simp add: example_fetch_def w0_def)
  have "fst (CrossBatchMixingDataSource_BuildDataSource (MixByWeight 1) example_fetch ?p w0) =
           (case fst (example_fetch (?ss ! 1) None (store w0)) of
              Inl x \<Rightarrow> Inl (Raised x)
            | Inr d \<Rightarrow>
                (case flatten d of
                   [] \<Rightarrow> Inl IndexError
                 | t # ts \<Rightarrow>
                     (case shape t of
                        [] \<Rightarrow> Inl IndexError
                      | batch_size # dims \<Rightarrow>
                          Inr \<lparr>data = d,
                               bprop_variable_filters =
                                 Some (if py_truthy (PList []) then PList []
                                       else PList (replicate (length ?ss) (PStr []))),
                               selected_bprop = Some (one_hot 1 (length ?ss)),
                               source_selected =
                                 Some (tile (expand_dims_0 (one_hot 1 (length ?ss)))
                                         [batch_size, 1])\<rparr>)))"
    using claim by (rule conjunct1 [OF conjunct2])
  then have 2: "\<exists>ret. fst (CrossBatchMixingDataSource_BuildDataSource (MixByWeight 1)
                example_fetch ?p w0) = Inr ret"
    by (simp add: example_fetch_def w0_def)
  have c: "?c ''file_patterns'' = Some (PList (map PStr ?ss))" by simp
  have m: "?m ''file_patterns'' = Some (PList (map PStr ?ss)) \<and>
           ?m ''weights'' = Some (PList [PInt 1, PInt 3])" by simp
  have 3: "ChainingDataSource_BuildDataSource example_fetch ?c w0 = (Inl ValueError, w0)"
    using claim c by blast
  have 4: "WithinBatchMixingDataSource_BuildDataSource example_fetch ?m w0 = (Inl ValueError, w0)"
    using claim' m by blast
  from 1 2 3 4 show ?thesis by (intro conjI)
qed

text \<open>
  C10. No weight is inspected. \<open>WithinBatchMixingDataSource\<close>: whatever the elements of
  a weights list as long as the patterns, the file-pattern function is called once, on the
  joined patterns and on that weights list. \<open>CrossBatchMixingDataSource\<close>: whatever the
  weights value whose length is the number of patterns, and whatever the selector, the call
  is the call of the selector on the producers and that weights value, followed by the
  construction of the result.
\<close>

theorem weights_forwarded_unchecked:
  fixes mix :: "('x, 's) selector" and fn :: "('x, 's) fetch"
  shows
  "(q ''file_patterns'' = Some (PList (map PStr ss)) \<and> (\<forall>s\<in>set ss. CHR '','' \<notin> set s) \<and>
    q ''weights'' = Some (PList ws) \<and> length ws = length ss \<longrightarrow>
      snd (WithinBatchMixingDataSource_BuildDataSource fn q w) =
        \<lparr>calls = calls w @ [(py_join '','' ss, Some (PList ws))],
         store = snd (fn (py_join '','' ss) (Some (PList ws)) (store w))\<rparr> \<and>
      fst (WithinBatchMixingDataSource_BuildDataSource fn q w) =
        (case fst (fn (py_join '','' ss) (Some (PList ws)) (store w)) of
           Inl x \<Rightarrow> Inl (Raised x)
         | Inr b \<Rightarrow> Inr \<lparr>data = b,
                         bprop_variable_filters = Some (PList (replicate (length ss) (PStr []))),
                         selected_bprop = None, source_selected = None\<rparr>)) \<and>
   (p ''weights'' = Some weights \<and> py_len weights = Some (length ss) \<and>
    p ''file_patterns'' = Some fps \<and> py_iter fps = Some (map PStr ss) \<and>
    p ''bprop_variable_filters'' = Some configured \<longrightarrow>
      CrossBatchMixingDataSource_BuildDataSource mix fn p w =
        (case mix (map (MakeDataSourceFromFilePatternFunc fn) ss) weights w of
           (Inl e, w') \<Rightarrow> (Inl e, w')
         | (Inr (d, bprop), w') \<Rightarrow>
             (case flatten d of
                [] \<Rightarrow> (Inl IndexError, w')
              | t # ts \<Rightarrow>
                  (case GetShape t of
                     [] \<Rightarrow> (Inl IndexError, w')
                   | batch_size # dims \<Rightarrow>
                       (Inr \<lparr>data = d,
                             bprop_variable_filters =
                               Some (if py_truthy configured then configured
                                     else PList (replicate (length ss) (PStr []))),
                             selected_bprop = Some bprop,
                             source_selected = Some (tile (expand_dims_0 bprop) [batch_size, 1])\<rparr>,
                        w')))))"
proof (intro conjI impI)
  assume a: "q ''file_patterns'' = Some (PList (map PStr ss)) \<and> (\<forall>s\<in>set ss. CHR '','' \<notin> set s) \<and>
    q ''weights'' = Some (PList ws) \<and> length ws = length ss"
  then have nc: "\<not> list_ex has_comma ss" by (simp add: list_ex_has_comma)
  let ?j = "py_join '','' ss" and ?ws = "Some (PList ws)"
  obtain r w' where c: "call_fetch fn ?j ?ws w = (r, w')"
    by (cases "call_fetch fn ?j ?ws w")
  have w': "w' = \<lparr>calls = calls w @ [(?j, ?ws)], store = snd (fn ?j ?ws (store w))\<rparr>"
    using call_fetch_snd [of fn ?j ?ws w] c by simp
  have r: "r = (case fst (fn ?j ?ws (store w)) of Inl x \<Rightarrow> Inl (Raised x) | Inr b \<Rightarrow> Inr b)"
    using call_fetch_fst [of fn ?j ?ws w] c by simp
  have eq: "WithinBatchMixingDataSource_BuildDataSource fn q w =
           (case r of Inl e \<Rightarrow> (Inl e, w')
            | Inr d \<Rightarrow>
                (Inr \<lparr>data = d, bprop_variable_filters = Some (PList (replicate (length ss) (PStr []))),
                      selected_bprop = None, source_selected = None\<rparr>, w'))"
    using Within_accepts [of q ss ws fn w] a nc c by (simp split: sum.splits)
  show "snd (WithinBatchMixingDataSource_BuildDataSource fn q w) =
        \<lparr>calls = calls w @ [(?j, ?ws)], store = snd (fn ?j ?ws (store w))\<rparr>"
    using eq w' by (simp split: sum.splits)
  show "fst (WithinBatchMixingDataSource_BuildDataSource fn q w) =
        (case fst (fn ?j ?ws (store w)) of
           Inl x \<Rightarrow> Inl (Raised x)
         | Inr b \<Rightarrow> Inr \<lparr>data = b,
                         bprop_variable_filters = Some (PList (replicate (length ss) (PStr []))),
                         selected_bprop = None, source_selected = None\<rparr>)"
    using eq r by (simp split: sum.splits)
next
  assume "p ''weights'' = Some weights \<and> py_len weights = Some (length ss) \<and>
    p ''file_patterns'' = Some fps \<and> py_iter fps = Some (map PStr ss) \<and>
    p ''bprop_variable_filters'' = Some configured"
  then show "CrossBatchMixingDataSource_BuildDataSource mix fn p w =
        (case mix (map (MakeDataSourceFromFilePatternFunc fn) ss) weights w of
           (Inl e, w') \<Rightarrow> (Inl e, w')
         | (Inr (d, bprop), w') \<Rightarrow>
             (case flatten d of
                [] \<Rightarrow> (Inl IndexError, w')
              | t # ts \<Rightarrow>
                  (case GetShape t of
                     [] \<Rightarrow> (Inl IndexError, w')
                   | batch_size # dims \<Rightarrow>
                       (Inr \<lparr>data = d,
                             bprop_variable_filters =
                               Some (if py_truthy configured then configured
                                     else PList (replicate (length ss) (PStr []))),
                             selected_bprop = Some bprop,
                             source_selected = Some (tile (expand_dims_0 bprop) [batch_size, 1])\<rparr>,
                        w'))))"
    using CrossBatch_valid [of p weights ss fps configured mix fn w] by blast
qed

theorem weights_forwarded_unchecked_witness:
  "snd (WithinBatchMixingDataSource_BuildDataSource example_fetch
     (WithinBatchMixingDataSource_Params
        (''file_patterns'' \<mapsto> PList [PStr ''a.rec'', PStr ''b.rec'', PStr ''c.rec''],
         ''weights'' \<mapsto> PList [PInt (- 1), PInt 0, PStr ''heavy''])) w0) =
     \<lparr>calls = [(''a.rec,b.rec,c.rec'', Some (PList [PInt (- 1), PInt 0, PStr ''heavy'']))],
      store = 1\<rparr> \<and>
   CrossBatchMixingDataSource_BuildDataSource
     (\<lambda>inputs weights w. (Inl ValueError, w\<lparr>calls := calls w @ [(''MixByWeight'', Some weights)]\<rparr>))
     example_fetch
     (CrossBatchMixingDataSource_Params
        (''file_patterns'' \<mapsto> PList [PStr ''a.rec'', PStr ''b.rec'', PStr ''c.rec''],
         ''weights'' \<mapsto> PList [PInt (- 1), PInt 0, PStr ''heavy''])) w0 =
     (Inl ValueError,
      \<lparr>calls = [(''MixByWeight'', Some (PList [PInt (- 1), PInt 0, PStr ''heavy'']))],
       store = 0\<rparr>)"
proof -
  let ?ss = "[''a.rec'', ''b.rec'', ''c.rec'']"
  let ?ws = "[PInt (- 1), PInt 0, PStr ''heavy'']"
  let ?q = "WithinBatchMixingDataSource_Params
        (''file_patterns'' \<mapsto> PList [PStr ''a.rec'', PStr ''b.rec'', PStr ''c.rec''],
         ''weights'' \<mapsto> PList ?ws)"
  let ?p = "CrossBatchMixingDataSource_Params
        (''file_patterns'' \<mapsto> PList [PStr ''a.rec'', PStr ''b.rec'', PStr ''c.rec''],
         ''weights'' \<mapsto> PList ?ws)"
  let ?mix = "\<lambda>(inputs :: (string, nat) producer list) weights (w :: nat world).
                (Inl ValueError :: string error + batch \<times> real list,
                 w\<lparr>calls := calls w @ [(''MixByWeight'', Some weights)]\<rparr>)"
  note claim = weights_forwarded_unchecked
    [where q = ?q and ss = ?ss and ws = ?ws and fn = example_fetch and w = w0 and p = ?p
       and weights = "PList ?ws" and fps = "PList (map PStr ?ss)" and configured = "PList []"
       and mix = ?mix]
  have hq: "?q ''file_patterns'' = Some (PList (map PStr ?ss)) \<and>
            (\<forall>s\<in>set ?ss. CHR '','' \<notin> set s) \<and>
            ?q ''weights'' = Some (PList ?ws) \<and> length ?ws = length ?ss"
    by simp
  have hp: "?p ''weights'' = Some (PList ?ws) \<and> py_len (PList ?ws) = Some (length ?ss) \<and>
            ?p ''file_patterns'' = Some (PList (map PStr ?ss)) \<and>
            py_iter (PList (map PStr ?ss)) = Some (map PStr ?ss) \<and>
            ?p ''bprop_variable_filters'' = Some (PList [])"
    by (simp add: CrossBatchMixingDataSource_Params_def)
  have "snd (WithinBatchMixingDataSource_BuildDataSource example_fetch ?q w0) =
        \<lparr>calls = calls w0 @ [(py_join '','' ?ss, Some (PList ?ws))],
         store = snd (example_fetch (py_join '','' ?ss) (Some (PList ?ws)) (store w0))\<rparr>"
    using claim hq by blast
  then have 1: "snd (WithinBatchMixingDataSource_BuildDataSource example_fetch ?q w0) =
     \<lparr>calls = [(''a.rec,b.rec,c.rec'', Some (PList ?ws))], store = 1\<rparr>"
    by (simp add: example_fetch_def w0_def)
  have "CrossBatchMixingDataSource_BuildDataSource ?mix example_fetch ?p w0 =
        (case ?mix (map (MakeDataSourceFromFilePatternFunc example_fetch) ?ss) (PList ?ws) w0 of
           (Inl e, w') \<Rightarrow> (Inl e, w')
         | (Inr (d, bprop), w') \<Rightarrow>
             (case flatten d of
                [] \<Rightarrow> (Inl IndexError, w')
              | t # ts \<Rightarrow>
                  (case GetShape t of
                     [] \<Rightarrow> (Inl IndexError, w')
                   | batch_size # dims \<Rightarrow>
                       (Inr \<lparr>data = d,
                             bprop_variable_filters =
                               Some (if py_truthy (PList []) then PList []
                                     else PList (replicate (length ?ss) (PStr []))),
                             selected_bprop = Some bprop,
                             source_selected = Some (tile (expand_dims_0 bprop) [batch_size, 1])\<rparr>,
                        w'))))"
    using claim hp by blast
  then have 2: "CrossBatchMixingDataSource_BuildDataSource ?mix example_fetch ?p w0 =
     (Inl ValueError, \<lparr>calls = [(''MixByWeight'', Some (PList ?ws))], store = 0\<rparr>)"
    by (simp add: w0_def)
  from 1 2 show ?thesis by (intro conjI)
qed

section \<open>Construction copies the configuration\<close>





end
